theory Spec2Isabelle
  imports Complex_Main "HOL-Library.AList"
begin

section \<open>Artemis: manuscript version detection (src/artemis.py)\<close>

text \<open>
  A shallow embedding of the decision engine of \<^verbatim>\<open>src/artemis.py\<close>: the result
  accumulator \<^verbatim>\<open>ArtemisResult\<close>, the tests of \<^verbatim>\<open>BaseParser\<close> and the two workflows
  \<^verbatim>\<open>DocxParser.parse\<close> and \<^verbatim>\<open>PdfParser.parse\<close>.

  Python exceptions are values of \<open>py_error\<close>; a function that may raise returns
  \<open>py_error + 'a\<close>, and an evaluation that raises yields the exception alone. The attributes that \<^verbatim>\<open>ArtemisResult\<close> declares in its class body and
  only ever mutates in place (\<^verbatim>\<open>possible_versions\<close>, \<^verbatim>\<open>test_results\<close>) live in an explicit
  class state that is passed through every evaluation; the attributes that the workflows
  assign on the instance are fields of the instance record.
\<close>

subsection \<open>Python values and errors\<close>

datatype py_error =
    AttributeError
  | TypeError
  | KeyError
  | FileNotFoundError
  | RegexError
  | ConnectionError

definition bind :: "py_error + 'a \<Rightarrow> ('a \<Rightarrow> py_error + 'b) \<Rightarrow> py_error + 'b" where
  "bind m f = (case m of Inl e \<Rightarrow> Inl e | Inr x \<Rightarrow> f x)"

text \<open>Truth value of an optional string (\<^verbatim>\<open>None\<close> and \<^verbatim>\<open>''\<close> are false).\<close>

definition truthy_str :: "string option \<Rightarrow> bool" where
  "truthy_str s = (case s of None \<Rightarrow> False | Some t \<Rightarrow> t \<noteq> [])"

text \<open>Truth value of a tri-state test result (\<^verbatim>\<open>None\<close> and \<^verbatim>\<open>False\<close> are false).\<close>

definition truthy_bool :: "bool option \<Rightarrow> bool" where
  "truthy_bool b = (b = Some True)"

text \<open>
  \<^verbatim>\<open>str.lower\<close> on ASCII strings: the letters A to Z are folded and every other
  character is left as it is.
\<close>

definition lower_char :: "char \<Rightarrow> char" where
  "lower_char c =
     (case map_of (zip ''ABCDEFGHIJKLMNOPQRSTUVWXYZ'' ''abcdefghijklmnopqrstuvwxyz'') c of
        None \<Rightarrow> c
      | Some l \<Rightarrow> l)"

definition lower :: "string \<Rightarrow> string" where
  "lower s = map lower_char s"

text \<open>\<^verbatim>\<open>str(n)\<close> for an integer, as \<^verbatim>\<open>format\<close> writes it.\<close>

fun digits :: "nat \<Rightarrow> string" where
  "digits n =
     (if n < 10 then [''0123456789'' ! n]
      else digits (n div 10) @ [''0123456789'' ! (n mod 10)])"

definition str_int :: "int \<Rightarrow> string" where
  "str_int i = (if i < 0 then CHR ''-'' # digits (nat (- i)) else digits (nat i))"

text \<open>
  \<^verbatim>\<open>int(x)\<close> truncates towards zero. Python's floats are modelled by rationals: the
  model is the code's arithmetic where the ratio and its product with the length are
  exact in binary floating point (0, 0.5 and their products are), and may differ by one
  from the code where the product is rounded.
\<close>

definition py_int :: "rat \<Rightarrow> int" where
  "py_int x = (if 0 \<le> x then \<lfloor>x\<rfloor> else \<lceil>x\<rceil>)"

text \<open>\<^verbatim>\<open>s.replace(old, new)\<close>: non-overlapping occurrences, from the left.\<close>

function replace :: "string \<Rightarrow> string \<Rightarrow> string \<Rightarrow> string" where
  "replace old new s =
     (if old = [] then new @ concat (map (\<lambda>c. c # new) s)
      else if s = [] then []
      else if take (length old) s = old then new @ replace old new (drop (length old) s)
      else hd s # replace old new (tl s))"
  by pat_completeness auto
termination
  by (relation "measure (\<lambda>(old, new, s). length s)") auto

text \<open>\<^verbatim>\<open>sub in s\<close> for strings.\<close>

fun contains :: "string \<Rightarrow> string \<Rightarrow> bool" where
  "contains sub [] = (sub = [])"
| "contains sub (c # cs) = (take (length sub) (c # cs) = sub \<or> contains sub cs)"

subsection \<open>Constants of \<^verbatim>\<open>utils.constants\<close> and \<^verbatim>\<open>utils.patterns\<close>\<close>

text \<open>
  The modules \<^verbatim>\<open>utils/constants.py\<close> and \<^verbatim>\<open>utils/patterns.py\<close> are imported by
  \<^verbatim>\<open>artemis.py\<close>; the values they bind are parameters of the model. A licence descriptor
  is read at the keys \<^verbatim>\<open>'url'\<close>, \<^verbatim>\<open>'long name'\<close> and \<^verbatim>\<open>'short name'\<close>.
\<close>

record licence =
  url :: string
  long_name :: string
  short_name :: string

record constants =
  SMUR :: string
  AM :: string
  P :: string
  VOR :: string
  DOI_PATTERN :: string
  ALL_CC_LICENCES :: "licence list"

definition NUMBER_OF_CHARACTERS_IN_ONE_PAGE :: nat where
  "NUMBER_OF_CHARACTERS_IN_ONE_PAGE = 2600"

definition PUBLISHER_PDF_METADATA_TAGS :: "string list" where
  "PUBLISHER_PDF_METADATA_TAGS =
     [''/CrossMarkDomains#5B1#5D'',
      ''/CrossMarkDomains#5B2#5D'',
      ''/CrossmarkDomainExclusive'',
      ''/CrossmarkMajorVersionDate'',
      ''/doi'',
      ''/ElsevierWebPDFSpecifications'',
      ''/Keywords'']"

definition DOI_BASE_URL :: string where
  "DOI_BASE_URL = ''https://doi.org/''"

subsection \<open>\<^verbatim>\<open>ArtemisResult\<close>\<close>

text \<open>The dictionary that \<^verbatim>\<open>find_match_in_extracted_text\<close> returns.\<close>

record match_result =
  matched :: string
  match_in_expected_position :: bool

text \<open>A detected logo; only \<^verbatim>\<open>metadata["indicate_ms_versions"]\<close> is read by the workflow.\<close>

record logo =
  logo_name :: string
  indicate_ms_versions :: "string list"

text \<open>The values stored in \<^verbatim>\<open>test_results\<close>.\<close>

datatype test_value =
    TBool "bool option"
  | TTags "string list"
  | TMatch "match_result option"
  | TLogos "logo list"

text \<open>
  The class body binds \<^verbatim>\<open>possible_versions = [SMUR, AM, P, VOR]\<close> and
  \<^verbatim>\<open>test_results = {}\<close> once, when the module is loaded. \<^verbatim>\<open>__init__\<close> assigns only
  \<^verbatim>\<open>input_filename\<close>, and no method rebinds the two names on an instance:
  \<^verbatim>\<open>self.possible_versions.remove(v)\<close> and \<^verbatim>\<open>self.test_results.update(...)\<close> mutate the
  objects of the class.
\<close>

record class_state =
  possible_versions :: "string list"
  test_results :: "(string \<times> test_value) list"

definition class_body :: "constants \<Rightarrow> class_state" where
  "class_body K =
     \<lparr>possible_versions = [SMUR K, AM K, P K, VOR K], test_results = []\<rparr>"

record artemis_result =
  input_filename :: string
  smur_prob :: int
  am_prob :: int
  p_prob :: int
  vor_oa_prob :: int
  vor_pw_prob :: int
  sanity_check :: "bool option"
  approve_deposit :: bool
  reason :: "string option"
  long_enough :: "bool option"
  title_match_file_metadata :: "bool option"
  title_match_extracted_text :: "bool option"
  extracted_publisher_tags_in_file_metadata :: "string list option"
  valid_doi_in_extracted_text :: "bool option"
  cc_match_extracted_text :: "match_result option"
  valid_doi_in_cermine_xml :: "bool option"
  title_match_cermine_xml :: "bool option"
  image_on_first_page :: "bool option"
  detected_logos :: "logo list option"

text \<open>\<^verbatim>\<open>ArtemisResult(input_filename)\<close>: every other attribute is the class default.\<close>

definition ArtemisResult :: "string \<Rightarrow> artemis_result" where
  "ArtemisResult name =
     \<lparr>input_filename = name,
      smur_prob = 194, am_prob = 5182, p_prob = 32, vor_oa_prob = 3286, vor_pw_prob = 866,
      sanity_check = None, approve_deposit = False, reason = None,
      long_enough = None, title_match_file_metadata = None,
      title_match_extracted_text = None,
      extracted_publisher_tags_in_file_metadata = None,
      valid_doi_in_extracted_text = None, cc_match_extracted_text = None,
      valid_doi_in_cermine_xml = None, title_match_cermine_xml = None,
      image_on_first_page = None, detected_logos = None\<rparr>"

text \<open>\<^verbatim>\<open>append_test_result\<close>: \<^verbatim>\<open>dict.update\<close> on the class dictionary.\<close>

definition append_test_result :: "class_state \<Rightarrow> string \<Rightarrow> test_value \<Rightarrow> class_state" where
  "append_test_result c name v = c\<lparr>test_results := AList.update name v (test_results c)\<rparr>"

text \<open>
  \<^verbatim>\<open>exclude_versions\<close>, on the list it mutates: \<^verbatim>\<open>list.remove\<close> deletes the first
  occurrence.
\<close>

fun exclude_versions :: "string list \<Rightarrow> string list \<Rightarrow> string list" where
  "exclude_versions pv [] = pv"
| "exclude_versions pv (v # e_list) =
     exclude_versions (if v \<in> set pv then remove1 v pv else pv) e_list"

definition exclude :: "class_state \<Rightarrow> string list \<Rightarrow> class_state" where
  "exclude c e_list = c\<lparr>possible_versions := exclude_versions (possible_versions c) e_list\<rparr>"

subsection \<open>External collaborators\<close>

text \<open>
  The regular expression engine (\<^verbatim>\<open>regex.escape\<close>, \<^verbatim>\<open>regex.search\<close> with the flag
  \<^verbatim>\<open>IGNORECASE\<close>), \<^verbatim>\<open>difflib.SequenceMatcher(None, a, b).ratio()\<close> and the HTTP request
  of \<^verbatim>\<open>requests.get(url).ok\<close> are libraries outside the repository: they are parameters
  of the model. A call that raises returns \<open>Inl\<close>.
\<close>

record match_object =
  m_start :: nat
  m_end :: nat
  m_group :: string

record services =
  regex_escape :: "string \<Rightarrow> string"
  regex_search :: "string \<Rightarrow> string \<Rightarrow> py_error + match_object option"
  sequence_ratio :: "string \<Rightarrow> string \<Rightarrow> rat"
  requests_get_ok :: "string \<Rightarrow> py_error + bool"

text \<open>
  What the extraction tools yield for the file at \<^verbatim>\<open>file_path\<close>: the metadata
  dictionary (\<^verbatim>\<open>getDocumentInfo()\<close> is \<^verbatim>\<open>None\<close> for a PDF without one), the extracted
  text, the texts of the elements that \<^verbatim>\<open>parse_cermxml\<close> visits in the CERMINE output
  (\<^verbatim>\<open>None\<close> when the file does not exist), the names in the images folder (\<^verbatim>\<open>None\<close>
  when \<^verbatim>\<open>os.listdir\<close> raises) and the logos whose hashes match.
\<close>

record cermxml =
  article_id_doi :: "string option list"
  article_title :: "string option list"
  journal_title :: "string option list"

record document =
  file_name :: string
  file_info :: "(string \<times> string) list option"
  file_text :: string
  cermine_xml :: "cermxml option"
  image_files :: "string list option"
  matched_logos :: "logo list"

subsection \<open>\<^verbatim>\<open>BaseParser\<close>\<close>

record parser =
  doc :: document
  dec_ms_title :: "string option"
  dec_version :: "string option"
  metadata :: "(string \<times> string) list"
  extracted_text :: "string option"
  doi_in_extracted_text :: "match_result option"
  file_metadata :: "(string \<times> string) list option"
  cerm_ran_and_parsed :: bool
  cerm_doi :: "string option"
  cerm_title :: "string option"
  cerm_journal_title :: "string option"

text \<open>\<^verbatim>\<open>__init__\<close> of \<^verbatim>\<open>BaseParser\<close> and \<^verbatim>\<open>PdfParser\<close>.\<close>

definition new_parser ::
  "document \<Rightarrow> string option \<Rightarrow> string option \<Rightarrow> (string \<times> string) list \<Rightarrow> parser" where
  "new_parser d title version kwargs =
     \<lparr>doc = d, dec_ms_title = title, dec_version = version, metadata = kwargs,
      extracted_text = None, doi_in_extracted_text = None, file_metadata = None,
      cerm_ran_and_parsed = False, cerm_doi = None, cerm_title = None,
      cerm_journal_title = None\<rparr>"

text \<open>
  \<^verbatim>\<open>extract_text\<close> (\<^verbatim>\<open>docx2txt\<close> for \<^verbatim>\<open>DocxParser\<close>; \<^verbatim>\<open>textract\<close>, CERMINE or
  \<^verbatim>\<open>pdftotext\<close> for \<^verbatim>\<open>PdfParser\<close>) stores the text of the file.
\<close>

definition extract_text :: "parser \<Rightarrow> parser" where
  "extract_text s = s\<lparr>extracted_text := Some (file_text (doc s))\<rparr>"

definition extract_file_metadata :: "parser \<Rightarrow> parser" where
  "extract_file_metadata s = s\<lparr>file_metadata := file_info (doc s)\<rparr>"

text \<open>
  The first lines of \<^verbatim>\<open>find_match_in_extracted_text\<close>: the pattern handed to
  \<^verbatim>\<open>regex.search\<close>. \<^verbatim>\<open>regex.escape(None)\<close> and \<^verbatim>\<open>len(None)\<close> raise \<^verbatim>\<open>TypeError\<close>.
\<close>

definition search_pattern ::
  "services \<Rightarrow> parser \<Rightarrow> string option \<Rightarrow> bool \<Rightarrow> rat \<Rightarrow> py_error + string option" where
  "search_pattern E s query escape_char allowed_error_ratio =
     (let query = (if \<not> truthy_str query then dec_ms_title s else query) in
      bind (if escape_char
            then (case query of
                    None \<Rightarrow> Inl TypeError
                  | Some q \<Rightarrow> Inr (Some (regex_escape E q)))
            else Inr query)
        (\<lambda>query.
           if allowed_error_ratio = 0 then Inr query
           else (case query of
                   None \<Rightarrow> Inl TypeError
                 | Some q \<Rightarrow>
                     Inr (Some (q @ ''{e<''
                          @ str_int (py_int (allowed_error_ratio * of_nat (length q)))
                          @ ''}'')))))"

definition continuous_text :: "string \<Rightarrow> string" where
  "continuous_text text = replace ''  '' '' '' (replace [CHR 0x0A] '' '' text)"

text \<open>
  \<^verbatim>\<open>find_match_in_extracted_text\<close>. Only a \<^verbatim>\<open>TypeError\<close> of \<^verbatim>\<open>regex.search\<close> is caught
  (a pattern that is \<^verbatim>\<open>None\<close> raises it); a match object is always true.
\<close>

definition find_match_in_extracted_text ::
  "services \<Rightarrow> parser \<Rightarrow> string option \<Rightarrow> bool \<Rightarrow> int \<times> int \<Rightarrow> rat
     \<Rightarrow> py_error + (match_result option \<times> parser)" where
  "find_match_in_extracted_text E s query escape_char expected_span allowed_error_ratio =
     bind (search_pattern E s query escape_char allowed_error_ratio)
       (\<lambda>pattern.
          let s = (if \<not> truthy_str (extracted_text s) then extract_text s else s) in
          case extracted_text s of
            None \<Rightarrow> Inl AttributeError
          | Some text \<Rightarrow>
              (case pattern of
                 None \<Rightarrow> Inr (None, s)
               | Some p \<Rightarrow>
                   (case regex_search E p (continuous_text text) of
                      Inl e \<Rightarrow> if e = TypeError then Inr (None, s) else Inl e
                    | Inr None \<Rightarrow> Inr (None, s)
                    | Inr (Some m) \<Rightarrow>
                        Inr (Some \<lparr>matched = m_group m,
                                   match_in_expected_position =
                                     (fst expected_span \<le> int (m_start m)
                                      \<and> int (m_end m) \<le> snd expected_span)\<rparr>, s))))"

definition find_doi_in_extracted_text ::
  "services \<Rightarrow> constants \<Rightarrow> parser \<Rightarrow> py_error + (match_result option \<times> parser)" where
  "find_doi_in_extracted_text E K s =
     bind (find_match_in_extracted_text E s (Some (DOI_PATTERN K)) False (0, 2600) 0)
       (\<lambda>(m, s). Inr (m, s\<lparr>doi_in_extracted_text := m\<rparr>))"

text \<open>
  \<^verbatim>\<open>find_cc_statement_in_extracted_text\<close>: the queries of the two nested loops, in
  order, and the loop that returns the first match.
\<close>

definition cc_queries :: "licence list \<Rightarrow> (string \<times> rat) list" where
  "cc_queries ls = concat (map (\<lambda>l. [(url l, 0), (long_name l, 1 / 10), (short_name l, 0)]) ls)"

fun find_cc_loop ::
  "services \<Rightarrow> parser \<Rightarrow> (string \<times> rat) list \<Rightarrow> py_error + (match_result option \<times> parser)" where
  "find_cc_loop E s [] = Inr (None, s)"
| "find_cc_loop E s (qr # rest) =
     (case find_match_in_extracted_text E s (Some (fst qr)) False (0, 2600) (snd qr) of
        Inl e \<Rightarrow> Inl e
      | Inr ms \<Rightarrow> if fst ms \<noteq> None then Inr ms else find_cc_loop E (snd ms) rest)"

definition find_cc_statement_in_extracted_text ::
  "services \<Rightarrow> constants \<Rightarrow> parser \<Rightarrow> py_error + (match_result option \<times> parser)" where
  "find_cc_statement_in_extracted_text E K s = find_cc_loop E s (cc_queries (ALL_CC_LICENCES K))"

definition test_title_match_in_file_metadata ::
  "services \<Rightarrow> parser \<Rightarrow> string \<Rightarrow> rat \<Rightarrow> py_error + bool option" where
  "test_title_match_in_file_metadata E s title_key min_similarity =
     (case dec_ms_title s of
        None \<Rightarrow> Inr None
      | Some title \<Rightarrow>
          if title = [] then Inr None
          else (case file_metadata s of
                  None \<Rightarrow> Inl AttributeError
                | Some md \<Rightarrow>
                    (case map_of md title_key of
                       None \<Rightarrow> Inr None
                     | Some v \<Rightarrow> Inr (Some (min_similarity \<le> sequence_ratio E v title)))))"

definition test_title_match_in_extracted_text ::
  "services \<Rightarrow> parser \<Rightarrow> py_error + (bool option \<times> parser)" where
  "test_title_match_in_extracted_text E s =
     (if truthy_str (dec_ms_title s)
      then bind (find_match_in_extracted_text E s None True (0, 2600) (1 / 10))
             (\<lambda>(m, s). Inr (Some (m \<noteq> None), s))
      else Inr (None, s))"

definition test_length_of_extracted_text :: "parser \<Rightarrow> nat \<Rightarrow> bool option" where
  "test_length_of_extracted_text s min_length =
     (case extracted_text s of
        None \<Rightarrow> None
      | Some text \<Rightarrow> if text \<noteq> [] then Some (min_length \<le> length text) else None)"

text \<open>
  \<^verbatim>\<open>test_doi_resolves\<close>: a missing \<^verbatim>\<open>'doi'\<close> key is caught and gives \<^verbatim>\<open>None\<close>; nothing
  catches what \<^verbatim>\<open>requests.get\<close> raises.
\<close>

definition test_doi_resolves :: "services \<Rightarrow> parser \<Rightarrow> string option \<Rightarrow> py_error + bool option" where
  "test_doi_resolves E s doi =
     (case (if \<not> truthy_str doi then map_of (metadata s) ''doi'' else doi) of
        None \<Rightarrow> Inr None
      | Some d \<Rightarrow> bind (requests_get_ok E (DOI_BASE_URL @ d)) (\<lambda>ok. Inr (Some ok)))"

subsection \<open>The response\<close>

text \<open>The dictionary that \<^verbatim>\<open>json_response\<close> serialises.\<close>

record response =
  input_file :: string
  response_approve_deposit :: bool
  response_reason :: "string option"
  version_confidence :: "(string \<times> rat) list"
  check_results :: "(string \<times> bool option) list"
  response_test_results :: "(string \<times> test_value) list"

definition json_response :: "artemis_result \<Rightarrow> class_state \<Rightarrow> response" where
  "json_response r c =
     \<lparr>input_file = input_filename r,
      response_approve_deposit = approve_deposit r,
      response_reason = reason r,
      version_confidence =
        [(''SMUR'', of_int (smur_prob r) / 100),
         (''AM'', of_int (am_prob r) / 100),
         (''P'', of_int (p_prob r) / 100),
         (''VOR'', of_int (vor_oa_prob r + vor_pw_prob r) / 100),
         (''VOR_oa'', of_int (vor_oa_prob r) / 100),
         (''VOR_pw'', of_int (vor_pw_prob r) / 100)],
      check_results = [(''sanity_check'', sanity_check r)],
      response_test_results = test_results c\<rparr>"

text \<open>
  The state of a workflow: the instance \<^verbatim>\<open>r\<close>, the class attributes of
  \<^verbatim>\<open>ArtemisResult\<close> and the parser \<^verbatim>\<open>self\<close>.
\<close>

record run =
  res :: artemis_result
  cls :: class_state
  self :: parser

definition format_opt :: "string option \<Rightarrow> string" where
  "format_opt v = (case v of None \<Rightarrow> ''None'' | Some t \<Rightarrow> t)"

definition sanity :: "artemis_result \<Rightarrow> bool" where
  "sanity r =
     (truthy_bool (long_enough r)
      \<and> (truthy_bool (title_match_file_metadata r) \<or> truthy_bool (title_match_extracted_text r)))"

text \<open>The \<^verbatim>\<open>else\<close> branch that both workflows share.\<close>

definition failure_reason :: "run \<Rightarrow> string" where
  "failure_reason x =
     (if truthy_bool (long_enough (res x))
      then ''Could not find declared title ('' @ format_opt (dec_ms_title (self x))
           @ '') in file '' @ file_name (doc (self x))
      else ''File '' @ file_name (doc (self x))
           @ '' is quite short for a journal article. Please check.'')"

subsection \<open>\<^verbatim>\<open>DocxParser.parse\<close>\<close>

definition DocxParser_tests ::
  "services \<Rightarrow> constants \<Rightarrow> class_state \<Rightarrow> parser \<Rightarrow> py_error + run" where
  "DocxParser_tests E K c s =
     (let r = ArtemisResult (file_name (doc s));
          c = exclude c [P K, VOR K];
          r = r\<lparr>smur_prob := 5000, am_prob := 5000, p_prob := 0,
                vor_oa_prob := 0, vor_pw_prob := 0\<rparr>;
          s = extract_file_metadata s
      in bind (test_title_match_in_file_metadata E s ''title'' (9 / 10))
           (\<lambda>t1.
              let c = append_test_result c ''test_title_match_in_file_metadata'' (TBool t1);
                  r = r\<lparr>title_match_file_metadata := t1\<rparr>;
                  s = extract_text s;
                  t2 = test_length_of_extracted_text s (3 * NUMBER_OF_CHARACTERS_IN_ONE_PAGE);
                  c = append_test_result c ''test_length_of_extracted_text'' (TBool t2);
                  r = r\<lparr>long_enough := t2\<rparr>
              in bind (test_title_match_in_extracted_text E s)
                   (\<lambda>(t3, s).
                      let c = append_test_result c ''test_title_match_in_extracted_text''
                                (TBool t3);
                          r = r\<lparr>title_match_extracted_text := t3\<rparr>
                      in Inr \<lparr>res = r, cls = c, self = s\<rparr>)))"

text \<open>\<^verbatim>\<open>self.dec_version.lower()\<close> raises \<^verbatim>\<open>AttributeError\<close> when no version is declared.\<close>

definition DocxParser_decision :: "run \<Rightarrow> py_error + run" where
  "DocxParser_decision x =
     (let r = res x in
      if sanity r
      then (let r = r\<lparr>sanity_check := Some True\<rparr> in
            case dec_version (self x) of
              None \<Rightarrow> Inl AttributeError
            | Some v \<Rightarrow>
                if lower v \<in> set (possible_versions (cls x))
                then Inr (x\<lparr>res := r\<lparr>approve_deposit := True,
                                      reason := Some ''Declared version is plausible''\<rparr>\<rparr>)
                else Inr (x\<lparr>res := r\<lparr>reason :=
                       Some (''This is either a submitted or accepted version, ''
                             @ ''but declared version is '' @ v)\<rparr>\<rparr>))
      else Inr (x\<lparr>res := r\<lparr>reason := Some (failure_reason x)\<rparr>\<rparr>))"

definition DocxParser_evaluate ::
  "services \<Rightarrow> constants \<Rightarrow> class_state \<Rightarrow> parser \<Rightarrow> py_error + run" where
  "DocxParser_evaluate E K c s = bind (DocxParser_tests E K c s) DocxParser_decision"

definition DocxParser_parse ::
  "services \<Rightarrow> constants \<Rightarrow> class_state \<Rightarrow> parser \<Rightarrow> py_error + response \<times> class_state" where
  "DocxParser_parse E K c s =
     bind (DocxParser_evaluate E K c s) (\<lambda>x. Inr (json_response (res x) (cls x), cls x))"

subsection \<open>\<^verbatim>\<open>PdfParser\<close>\<close>

text \<open>
  \<^verbatim>\<open>parse_cermxml\<close>: each loop overwrites the attribute with the text of every element
  it visits, so the last one stays.
\<close>

definition parse_cermxml :: "parser \<Rightarrow> parser" where
  "parse_cermxml s =
     (case cermine_xml (doc s) of
        None \<Rightarrow> s
      | Some x \<Rightarrow>
          s\<lparr>cerm_doi := foldl (\<lambda>old new. new) (cerm_doi s) (article_id_doi x),
            cerm_title := foldl (\<lambda>old new. new) (cerm_title s) (article_title x),
            cerm_journal_title :=
              foldl (\<lambda>old new. new) (cerm_journal_title s) (journal_title x),
            cerm_ran_and_parsed := True\<rparr>)"

definition extract_publisher_tags_from_file_metadata :: "parser \<Rightarrow> py_error + string list" where
  "extract_publisher_tags_from_file_metadata s =
     (case file_metadata s of
        None \<Rightarrow> Inl AttributeError
      | Some md \<Rightarrow>
          Inr (filter (\<lambda>tag. truthy_str (map_of md tag)) PUBLISHER_PDF_METADATA_TAGS))"

definition test_title_match_cermxml ::
  "services \<Rightarrow> parser \<Rightarrow> rat \<Rightarrow> bool option \<times> parser" where
  "test_title_match_cermxml E s min_similarity =
     (let s = (if \<not> cerm_ran_and_parsed s then parse_cermxml s else s) in
      case (dec_ms_title s, cerm_title s) of
        (Some title, Some ct) \<Rightarrow>
          if title \<noteq> [] \<and> ct \<noteq> []
          then (Some (min_similarity \<le> sequence_ratio E ct title), s)
          else (None, s)
      | _ \<Rightarrow> (None, s))"

definition test_file_has_image_on_first_page :: "parser \<Rightarrow> py_error + bool" where
  "test_file_has_image_on_first_page s =
     (case image_files (doc s) of
        None \<Rightarrow> Inl FileNotFoundError
      | Some names \<Rightarrow> Inr (list_ex (contains ''img_1_'') names))"

definition detect_publisher_logos :: "parser \<Rightarrow> py_error + logo list" where
  "detect_publisher_logos s =
     (case image_files (doc s) of
        None \<Rightarrow> Inl FileNotFoundError
      | Some names \<Rightarrow> Inr (matched_logos (doc s)))"

text \<open>The versions that the detected logos suggest, without repetition.\<close>

definition suggested_versions :: "logo list \<Rightarrow> string list" where
  "suggested_versions logos =
     foldl (\<lambda>acc version. if version \<notin> set acc then acc @ [version] else acc) []
       (concat (map indicate_ms_versions logos))"

text \<open>
  \<^verbatim>\<open>for v in reversed(r.possible_versions)\<close>: the iterator holds an index into the list
  that the body mutates; it stops when the index is outside the list. \<open>Suc i\<close> stands
  for the index \<open>i\<close>.
\<close>

fun exclude_unsuggested :: "string list \<Rightarrow> nat \<Rightarrow> string list \<Rightarrow> string list" where
  "exclude_unsuggested suggested 0 pv = pv"
| "exclude_unsuggested suggested (Suc i) pv =
     (if i < length pv
      then exclude_unsuggested suggested i
             (if pv ! i \<notin> set suggested then exclude_versions pv [pv ! i] else pv)
      else pv)"

text \<open>The regions of \<^verbatim>\<open>PdfParser.parse\<close>, in order.\<close>

definition PdfParser_file_metadata_tests ::
  "services \<Rightarrow> constants \<Rightarrow> run \<Rightarrow> py_error + run" where
  "PdfParser_file_metadata_tests E K x =
     (let s = extract_file_metadata (self x) in
      bind (test_title_match_in_file_metadata E s ''/Title'' (9 / 10))
        (\<lambda>t1.
           let c = append_test_result (cls x) ''test_title_match_in_file_metadata'' (TBool t1);
               r = (res x)\<lparr>title_match_file_metadata := t1\<rparr>
           in bind (extract_publisher_tags_from_file_metadata s)
                (\<lambda>tags.
                   let c = append_test_result c ''extract_publisher_tags_from_file_metadata''
                             (TTags tags);
                       r = r\<lparr>extracted_publisher_tags_in_file_metadata := Some tags\<rparr>
                   in if tags \<noteq> []
                      then (let c = exclude c [''submitted version'', SMUR K];
                                r = r\<lparr>smur_prob := 0\<rparr>;
                                c = exclude c [''accepted version'', AM K];
                                r = r\<lparr>am_prob := 0\<rparr>
                            in Inr \<lparr>res = r, cls = c, self = s\<rparr>)
                      else Inr \<lparr>res = r, cls = c, self = s\<rparr>)))"

definition PdfParser_extracted_text_tests ::
  "services \<Rightarrow> constants \<Rightarrow> run \<Rightarrow> py_error + run" where
  "PdfParser_extracted_text_tests E K x =
     (let s = extract_text (self x);
          t2 = test_length_of_extracted_text s (3 * NUMBER_OF_CHARACTERS_IN_ONE_PAGE);
          c = append_test_result (cls x) ''test_length_of_extracted_text'' (TBool t2);
          r = (res x)\<lparr>long_enough := t2\<rparr>
      in bind (test_title_match_in_extracted_text E s)
           (\<lambda>(t3, s).
              let c = append_test_result c ''test_title_match_in_extracted_text'' (TBool t3);
                  r = r\<lparr>title_match_extracted_text := t3\<rparr>
              in bind (find_doi_in_extracted_text E K s)
                   (\<lambda>(found, s).
                      bind (case doi_in_extracted_text s of
                              None \<Rightarrow> Inr (r, c)
                            | Some m \<Rightarrow>
                                bind (test_doi_resolves E s (Some (matched m)))
                                  (\<lambda>v. Inr (r\<lparr>valid_doi_in_extracted_text := v\<rparr>,
                                            append_test_result c
                                              ''test_valid_doi_in_extracted_text'' (TBool v))))
                        (\<lambda>(r, c).
                           bind (find_cc_statement_in_extracted_text E K s)
                             (\<lambda>(cc, s).
                                Inr \<lparr>res = r\<lparr>cc_match_extracted_text := cc\<rparr>,
                                     cls = append_test_result c
                                             ''find_cc_statement_in_extracted_text'' (TMatch cc),
                                     self = s\<rparr>)))))"

definition PdfParser_cermine_tests :: "services \<Rightarrow> run \<Rightarrow> py_error + run" where
  "PdfParser_cermine_tests E x =
     (let s = parse_cermxml (self x) in
      bind (if truthy_str (cerm_doi s)
            then bind (test_doi_resolves E s (cerm_doi s))
                   (\<lambda>v. Inr ((res x)\<lparr>valid_doi_in_cermine_xml := v\<rparr>,
                             append_test_result (cls x) ''test_valid_doi_in_cermine_xml''
                               (TBool v)))
            else Inr (res x, cls x))
        (\<lambda>(r, c).
           let ts = test_title_match_cermxml E s (9 / 10) in
           Inr \<lparr>res = r\<lparr>title_match_cermine_xml := fst ts\<rparr>,
                cls = append_test_result c ''test_title_match_cermxml'' (TBool (fst ts)),
                self = snd ts\<rparr>))"

definition PdfParser_logo_tests :: "run \<Rightarrow> py_error + run" where
  "PdfParser_logo_tests x =
     bind (test_file_has_image_on_first_page (self x))
       (\<lambda>img.
          let c = append_test_result (cls x) ''test_file_has_image_on_first_page''
                    (TBool (Some img));
              r = (res x)\<lparr>image_on_first_page := Some img\<rparr>
          in bind (detect_publisher_logos (self x))
               (\<lambda>logos.
                  let c = append_test_result c ''detect_publisher_logos'' (TLogos logos);
                      r = r\<lparr>detected_logos := Some logos\<rparr>;
                      c = (if logos \<noteq> []
                           then c\<lparr>possible_versions :=
                                    exclude_unsuggested (suggested_versions logos)
                                      (length (possible_versions c)) (possible_versions c)\<rparr>
                           else c)
                  in Inr \<lparr>res = r, cls = c, self = self x\<rparr>))"

definition author_versions :: "constants \<Rightarrow> string list" where
  "author_versions K = [''submitted version'', ''accepted version'', SMUR K, AM K]"

definition publisher_generated :: "artemis_result \<Rightarrow> bool" where
  "publisher_generated r =
     ((case extracted_publisher_tags_in_file_metadata r of
         None \<Rightarrow> False
       | Some tags \<Rightarrow> tags \<noteq> [])
      \<or> cc_match_extracted_text r \<noteq> None)"

definition PdfParser_decision :: "constants \<Rightarrow> run \<Rightarrow> py_error + run" where
  "PdfParser_decision K x =
     (let r = res x in
      if sanity r
      then (let r = r\<lparr>sanity_check := Some True\<rparr> in
            if publisher_generated r
            then (let c = exclude (cls x) [SMUR K, AM K] in
                  case dec_version (self x) of
                    None \<Rightarrow> Inl AttributeError
                  | Some v \<Rightarrow>
                      let r = (if lower v \<in> set (author_versions K)
                               then r\<lparr>reason := Some (''PDF metadata contains publisher tags, ''
                                        @ ''but declared version is author-generated'')\<rparr>
                               else r)
                      in if cc_match_extracted_text r \<noteq> None
                         then Inr (x\<lparr>res := r\<lparr>reason :=
                                  Some ''Create Commons licence detected in extracted text'',
                                  approve_deposit := True\<rparr>, cls := c\<rparr>)
                         else Inr (x\<lparr>res := r\<lparr>reason :=
                                  Some ''Publisher-generated version; no evidence of CC licence''\<rparr>,
                                  cls := c\<rparr>))
            else (case dec_version (self x) of
                    None \<Rightarrow> Inl AttributeError
                  | Some v \<Rightarrow>
                      if lower v \<in> set (author_versions K)
                      then Inr (x\<lparr>res := r\<lparr>approve_deposit := True, reason :=
                             Some (''Could not find any evidence that this PDF ''
                                   @ ''is publisher-generated'')\<rparr>\<rparr>)
                      else Inr (x\<lparr>res := r\<lparr>reason :=
                             Some (''This is either a submitted or accepted version, ''
                                   @ ''but declared version is '' @ v)\<rparr>\<rparr>)))
      else Inr (x\<lparr>res := r\<lparr>reason := Some (failure_reason x)\<rparr>\<rparr>))"

definition PdfParser_evaluate ::
  "services \<Rightarrow> constants \<Rightarrow> class_state \<Rightarrow> parser \<Rightarrow> py_error + run" where
  "PdfParser_evaluate E K c s =
     (let r = (ArtemisResult (file_name (doc s)))
                \<lparr>smur_prob := 2500, am_prob := 2500, p_prob := 2500,
                 vor_oa_prob := 1250, vor_pw_prob := 1250\<rparr>
      in bind (PdfParser_file_metadata_tests E K \<lparr>res = r, cls = c, self = s\<rparr>)
           (\<lambda>x. bind (PdfParser_extracted_text_tests E K x)
              (\<lambda>x. bind (PdfParser_cermine_tests E x)
                 (\<lambda>x. bind (PdfParser_logo_tests x) (PdfParser_decision K)))))"

definition PdfParser_parse ::
  "services \<Rightarrow> constants \<Rightarrow> class_state \<Rightarrow> parser \<Rightarrow> py_error + response \<times> class_state" where
  "PdfParser_parse E K c s =
     bind (PdfParser_evaluate E K c s) (\<lambda>x. Inr (json_response (res x) (cls x), cls x))"

subsection \<open>Reference behaviour of the libraries on literal queries\<close>



fun find_from :: "string \<Rightarrow> string \<Rightarrow> nat \<Rightarrow> match_object option" where
  "find_from q [] i =
     (if q = [] then Some \<lparr>m_start = i, m_end = i, m_group = []\<rparr> else None)"
| "find_from q (c # cs) i =
     (if lower (take (length q) (c # cs)) = lower q
      then Some \<lparr>m_start = i, m_end = i + length q, m_group = take (length q) (c # cs)\<rparr>
      else find_from q cs (Suc i))"



subsection \<open>Stand-ins for the libraries and example documents\<close>

text \<open>
  \<^verbatim>\<open>regex.escape\<close> puts a backslash before each special character and each white space;
  \<open>literal_search\<close> reads a pattern as an escaped literal. They stand for the engine in
  the examples below, on patterns and texts where the answer of any engine is the same.
\<close>

definition regex_metachars :: string where
  "regex_metachars = ''()[]{}?*+|^$.-#&~'' @ [CHR 0x5C]"

definition white_space :: string where
  "white_space = [CHR '' '', CHR 0x09, CHR 0x0A, CHR 0x0B, CHR 0x0C, CHR 0x0D]"

definition escape :: "string \<Rightarrow> string" where
  "escape q =
     concat (map (\<lambda>c. if c \<in> set regex_metachars \<or> c \<in> set white_space
                       then [CHR 0x5C, c] else [c]) q)"

fun unescape :: "string \<Rightarrow> string" where
  "unescape (c # d # cs) =
     (if c = CHR 0x5C then d # unescape cs else c # unescape (d # cs))"
| "unescape cs = cs"

definition literal_search :: "string \<Rightarrow> string \<Rightarrow> py_error + match_object option" where
  "literal_search p t = Inr (find_from (unescape p) t 0)"

definition literal_services :: services where
  "literal_services =
     \<lparr>regex_escape = escape,
      regex_search = literal_search,
      sequence_ratio = (\<lambda>a b. if a = b then 1 else 0),
      requests_get_ok = (\<lambda>u. Inr True)\<rparr>"

text \<open>An engine that finds nothing, for texts that hold none of the patterns.\<close>

definition quiet_services :: services where
  "quiet_services = literal_services\<lparr>regex_search := (\<lambda>p t. Inr None)\<rparr>"

definition example_constants :: constants where
  "example_constants =
     \<lparr>SMUR = ''submitted manuscript under review'',
      AM = ''accepted manuscript'',
      P = ''proof'',
      VOR = ''version of record'',
      DOI_PATTERN = ''10[.][0-9]{4,9}/[-._;()/:a-z0-9]+'',
      ALL_CC_LICENCES =
        [\<lparr>url = ''creativecommons.org/licenses/by/4.0'',
          long_name = ''Creative Commons Attribution 4.0 International'',
          short_name = ''CC BY''\<rparr>]\<rparr>"

text \<open>Example documents: 7800 characters of text that hold no title, DOI or licence.\<close>

definition long_text :: string where
  "long_text = replicate 7800 (CHR ''x'')"

definition example_docx :: parser where
  "example_docx =
     new_parser
       \<lparr>file_name = ''paper.docx'',
        file_info = Some [(''title'', ''Deep Learning for Cats'')],
        file_text = long_text,
        cermine_xml = None, image_files = None, matched_logos = []\<rparr>
       (Some ''Deep Learning for Cats'') (Some ''Accepted Manuscript'') []"

definition example_pdf :: parser where
  "example_pdf =
     new_parser
       \<lparr>file_name = ''paper.pdf'',
        file_info = Some [(''/Title'', ''Deep Learning for Cats''), (''/doi'', ''10.1000/182'')],
        file_text = long_text,
        cermine_xml = None, image_files = Some [], matched_logos = []\<rparr>
       (Some ''Deep Learning for Cats'') (Some ''accepted manuscript'') []"

text \<open>A document whose extracted text is empty, with a matching title in its metadata.\<close>

definition empty_docx :: parser where
  "empty_docx =
     new_parser
       \<lparr>file_name = ''empty.docx'',
        file_info = Some [(''title'', ''Deep Learning for Cats'')],
        file_text = [],
        cermine_xml = None, image_files = None, matched_logos = []\<rparr>
       (Some ''Deep Learning for Cats'') (Some ''accepted manuscript'') []"

text \<open>
  A PDF whose text holds a DOI, read while the DOI resolver cannot be reached: the engine
  reports the DOI at its place in the text, and every request raises.
\<close>

definition offline_services :: services where
  "offline_services =
     literal_services
       \<lparr>regex_search :=
          (\<lambda>p t. if p = DOI_PATTERN example_constants \<and> t = ''doi 10.1000/182''
                  then Inr (Some \<lparr>m_start = 4, m_end = 15, m_group = ''10.1000/182''\<rparr>)
                  else Inr None),
        requests_get_ok := (\<lambda>u. Inl ConnectionError)\<rparr>"

definition offline_pdf :: parser where
  "offline_pdf =
     new_parser
       \<lparr>file_name = ''note.pdf'',
        file_info = Some [],
        file_text = ''doi 10.1000/182'',
        cermine_xml = None, image_files = Some [], matched_logos = []\<rparr>
       None (Some ''accepted manuscript'') []"

text \<open>A short note that holds its declared title in another letter case.\<close>

definition titled_note :: parser where
  "titled_note =
     new_parser
       \<lparr>file_name = ''note.docx'',
        file_info = Some [],
        file_text = ''On deep learning'',
        cermine_xml = None, image_files = None, matched_logos = []\<rparr>
       (Some ''Deep Learning'') None []"


subsection \<open>Reading the outcome of an evaluation\<close>

text \<open>The three values that the length test and the decision leave in a final state.\<close>

definition verdict :: "py_error + run \<Rightarrow> py_error + bool option \<times> bool option \<times> bool" where
  "verdict m =
     bind m (\<lambda>y. Inr (long_enough (res y), sanity_check (res y), approve_deposit (res y)))"

text \<open>The state in which \<^verbatim>\<open>PdfParser.parse\<close> enters its first region.\<close>

definition PdfParser_start :: "class_state \<Rightarrow> parser \<Rightarrow> run" where
  "PdfParser_start c s =
     \<lparr>res = (ArtemisResult (file_name (doc s)))
              \<lparr>smur_prob := 2500, am_prob := 2500, p_prob := 2500,
               vor_oa_prob := 1250, vor_pw_prob := 1250\<rparr>,
      cls = c, self = s\<rparr>"

text \<open>
  Documents evaluated one after the other in one process, as the end-to-end tests do
  through \<^verbatim>\<open>VersionDetector.detect\<close>: the class attributes of \<^verbatim>\<open>ArtemisResult\<close> that one
  evaluation leaves are those the next one finds.
\<close>

datatype job = Docx parser | Pdf parser

fun detect_all ::
  "services \<Rightarrow> constants \<Rightarrow> class_state \<Rightarrow> job list \<Rightarrow> py_error + response list" where
  "detect_all E K c [] = Inr []"
| "detect_all E K c (j # js) =
     (case (case j of Docx s \<Rightarrow> DocxParser_parse E K c s | Pdf s \<Rightarrow> PdfParser_parse E K c s) of
        Inl e \<Rightarrow> Inl e
      | Inr rc \<Rightarrow>
          (case detect_all E K (snd rc) js of
             Inl e \<Rightarrow> Inl e
           | Inr rs \<Rightarrow> Inr (fst rc # rs)))"

subsection \<open>Properties of \<^verbatim>\<open>exclude_versions\<close>\<close>

lemma exclude_versions_fold: "exclude_versions pv e_list = fold remove1 e_list pv"
  by (induction e_list arbitrary: pv) (simp_all add: remove1_idem)

lemma exclude_versions_distinct: "distinct pv \<Longrightarrow> distinct (exclude_versions pv e_list)"
  by (induction e_list arbitrary: pv) simp_all

lemma exclude_versions_set:
  "distinct pv \<Longrightarrow> set (exclude_versions pv e_list) = set pv - set e_list"
  by (induction e_list arbitrary: pv) auto

lemma exclude_versions_subset: "set (exclude_versions pv e_list) \<subseteq> set pv"
proof (induction e_list arbitrary: pv)
  case Nil
  show ?case by simp
next
  case (Cons v e_list)
  have "set (exclude_versions (if v \<in> set pv then remove1 v pv else pv) e_list)
          \<subseteq> set (if v \<in> set pv then remove1 v pv else pv)"
    by (rule Cons.IH)
  also have "\<dots> \<subseteq> set pv"
    using set_remove1_subset [of v pv] by simp
  finally show ?case by simp
qed





subsection \<open>The workflows, stage by stage\<close>

lemma bind_Inr_iff: "bind m f = Inr y \<longleftrightarrow> (\<exists>x. m = Inr x \<and> f x = Inr y)"
  by (cases m) (simp_all add: bind_def)

lemma find_match_state:
  assumes "find_match_in_extracted_text E s query esc window ratio = Inr (m, s')"
  shows "s' = (if \<not> truthy_str (extracted_text s) then extract_text s else s)"
proof -
  let ?s = "if \<not> truthy_str (extracted_text s) then extract_text s else s"
  from assms obtain pattern where
    body: "(case extracted_text ?s of
              None \<Rightarrow> Inl AttributeError
            | Some text \<Rightarrow>
                (case pattern of
                   None \<Rightarrow> Inr (None, ?s)
                 | Some p \<Rightarrow>
                     (case regex_search E p (continuous_text text) of
                        Inl e \<Rightarrow> if e = TypeError then Inr (None, ?s) else Inl e
                      | Inr None \<Rightarrow> Inr (None, ?s)
                      | Inr (Some mo) \<Rightarrow>
                          Inr (Some \<lparr>matched = m_group mo,
                                     match_in_expected_position =
                                       (fst window \<le> int (m_start mo)
                                        \<and> int (m_end mo) \<le> snd window)\<rparr>, ?s))))
           = Inr (m, s')"
    unfolding find_match_in_extracted_text_def bind_Inr_iff Let_def by blast
  then obtain hay where hay: "extracted_text ?s = Some hay"
    by (cases "extracted_text ?s") simp_all
  show ?thesis
  proof (cases pattern)
    case None
    with body hay show ?thesis by simp
  next
    case (Some p)
    show ?thesis
    proof (cases "regex_search E p (continuous_text hay)")
      case (Inl e)
      with body hay Some show ?thesis by (cases "e = TypeError") simp_all
    next
      case (Inr found)
      with body hay Some show ?thesis by (cases found) simp_all
    qed
  qed
qed

lemma find_match_parser:
  assumes "find_match_in_extracted_text E s query esc window ratio = Inr (m, s')"
  shows "doc s' = doc s \<and> dec_version s' = dec_version s \<and> dec_ms_title s' = dec_ms_title s
         \<and> file_metadata s' = file_metadata s"
  using find_match_state [OF assms] by (simp add: extract_text_def)

lemma find_cc_loop_parser:
  "find_cc_loop E s qs = Inr (m, s') \<Longrightarrow>
   doc s' = doc s \<and> dec_version s' = dec_version s \<and> dec_ms_title s' = dec_ms_title s"
proof (induction qs arbitrary: s)
  case Nil
  then show ?case by simp
next
  case (Cons qr rest)
  from Cons.prems obtain ms where
    ms: "find_match_in_extracted_text E s (Some (fst qr)) False (0, 2600) (snd qr) = Inr ms"
    and rest: "(if fst ms \<noteq> None then Inr ms else find_cc_loop E (snd ms) rest) = Inr (m, s')"
    by (auto split: sum.splits)
  from ms have keep: "doc (snd ms) = doc s \<and> dec_version (snd ms) = dec_version s
      \<and> dec_ms_title (snd ms) = dec_ms_title s"
    using find_match_parser [of E s "Some (fst qr)" False "(0, 2600)" "snd qr" "fst ms" "snd ms"]
    by simp
  show ?case
  proof (cases "fst ms \<noteq> None")
    case True
    with rest have "ms = (m, s')" by simp
    with keep show ?thesis by auto
  next
    case False
    with rest have "find_cc_loop E (snd ms) rest = Inr (m, s')" by simp
    from Cons.IH [OF this] keep show ?thesis by simp
  qed
qed

lemma test_title_text_parser:
  assumes "test_title_match_in_extracted_text E s = Inr (t, s')"
  shows "doc s' = doc s \<and> dec_version s' = dec_version s \<and> dec_ms_title s' = dec_ms_title s"
  using assms find_match_parser [of E s None True "(0, 2600)" "1 / 10"]
  by (auto simp: test_title_match_in_extracted_text_def bind_Inr_iff split: if_splits)

lemma find_doi_parser:
  assumes "find_doi_in_extracted_text E K s = Inr (m, s')"
  shows "doc s' = doc s \<and> dec_version s' = dec_version s \<and> dec_ms_title s' = dec_ms_title s"
  using assms find_match_parser [of E s "Some (DOI_PATTERN K)" False "(0, 2600)" 0]
  by (auto simp: find_doi_in_extracted_text_def bind_Inr_iff)

lemma exclude_subset: "set (possible_versions (exclude c e_list)) \<subseteq> set (possible_versions c)"
  by (simp add: exclude_def exclude_versions_subset)

lemma possible_versions_append [simp]:
  "possible_versions (append_test_result c name v) = possible_versions c"
  by (simp add: append_test_result_def)

lemma exclude_unsuggested_subset:
  "set (exclude_unsuggested suggested n pv) \<subseteq> set pv"
proof (induction n arbitrary: pv)
  case 0
  show ?case by simp
next
  case (Suc i)
  show ?case
  proof (cases "i < length pv")
    case True
    let ?pv = "if pv ! i \<notin> set suggested then exclude_versions pv [pv ! i] else pv"
    have "set (exclude_unsuggested suggested i ?pv) \<subseteq> set ?pv"
      by (rule Suc.IH)
    also have "set ?pv \<subseteq> set pv"
      using exclude_versions_subset [of pv "[pv ! i]"] by (simp del: exclude_versions.simps)
    finally show ?thesis using True by simp
  next
    case False
    then show ?thesis by simp
  qed
qed

lemma file_metadata_tests_frame:
  assumes "PdfParser_file_metadata_tests E K x = Inr y"
  shows "approve_deposit (res y) = approve_deposit (res x)
         \<and> sanity_check (res y) = sanity_check (res x)
         \<and> long_enough (res y) = long_enough (res x)
         \<and> doc (self y) = doc (self x) \<and> dec_version (self y) = dec_version (self x)"
  using assms unfolding PdfParser_file_metadata_tests_def bind_Inr_iff Let_def
  by (elim exE conjE) (simp add: extract_file_metadata_def split: if_splits, auto)

lemma file_metadata_tests_effect:
  assumes "PdfParser_file_metadata_tests E K x = Inr y"
  shows "\<exists>tags. extract_publisher_tags_from_file_metadata (extract_file_metadata (self x))
                  = Inr tags
           \<and> extracted_publisher_tags_in_file_metadata (res y) = Some tags
           \<and> smur_prob (res y) = (if tags \<noteq> [] then 0 else smur_prob (res x))
           \<and> am_prob (res y) = (if tags \<noteq> [] then 0 else am_prob (res x))
           \<and> possible_versions (cls y)
               = (if tags \<noteq> []
                  then exclude_versions
                         (exclude_versions (possible_versions (cls x))
                            [''submitted version'', SMUR K])
                         [''accepted version'', AM K]
                  else possible_versions (cls x))"
  using assms unfolding PdfParser_file_metadata_tests_def bind_Inr_iff Let_def
  by (elim exE conjE)
     (simp add: exclude_def split: if_splits del: exclude_versions.simps, auto)

lemma doi_step:
  assumes "(case found of
              None \<Rightarrow> Inr (r0, c0)
            | Some m \<Rightarrow>
                bind (test_doi_resolves E s (Some (matched m)))
                  (\<lambda>v. Inr (r0\<lparr>valid_doi_in_extracted_text := v\<rparr>,
                            append_test_result c0 ''test_valid_doi_in_extracted_text''
                              (TBool v)))) = Inr (r, c)"
  shows "approve_deposit r = approve_deposit r0 \<and> sanity_check r = sanity_check r0
         \<and> long_enough r = long_enough r0 \<and> smur_prob r = smur_prob r0
         \<and> am_prob r = am_prob r0
         \<and> title_match_file_metadata r = title_match_file_metadata r0
         \<and> title_match_extracted_text r = title_match_extracted_text r0
         \<and> extracted_publisher_tags_in_file_metadata r
             = extracted_publisher_tags_in_file_metadata r0
         \<and> possible_versions c = possible_versions c0"
  using assms by (cases found) (auto simp: bind_Inr_iff)

lemma extracted_text_tests_frame:
  assumes "PdfParser_extracted_text_tests E K x = Inr y"
  shows "approve_deposit (res y) = approve_deposit (res x)
         \<and> sanity_check (res y) = sanity_check (res x)
         \<and> smur_prob (res y) = smur_prob (res x)
         \<and> am_prob (res y) = am_prob (res x)
         \<and> extracted_publisher_tags_in_file_metadata (res y)
             = extracted_publisher_tags_in_file_metadata (res x)
         \<and> possible_versions (cls y) = possible_versions (cls x)
         \<and> long_enough (res y)
             = test_length_of_extracted_text (extract_text (self x))
                 (3 * NUMBER_OF_CHARACTERS_IN_ONE_PAGE)
         \<and> doc (self y) = doc (self x) \<and> dec_version (self y) = dec_version (self x)"
proof -
  let ?t2 = "test_length_of_extracted_text (extract_text (self x))
               (3 * NUMBER_OF_CHARACTERS_IN_ONE_PAGE)"
  from assms obtain t3 s1 where
    a: "test_title_match_in_extracted_text E (extract_text (self x)) = Inr (t3, s1)"
    and rest1: "bind (find_doi_in_extracted_text E K s1)
       (\<lambda>(found, s).
          bind (case doi_in_extracted_text s of
                  None \<Rightarrow>
                    Inr ((res x)\<lparr>long_enough := ?t2, title_match_extracted_text := t3\<rparr>,
                         append_test_result
                           (append_test_result (cls x) ''test_length_of_extracted_text''
                              (TBool ?t2))
                           ''test_title_match_in_extracted_text'' (TBool t3))
                | Some m \<Rightarrow>
                    bind (test_doi_resolves E s (Some (matched m)))
                      (\<lambda>v. Inr ((res x)\<lparr>long_enough := ?t2, title_match_extracted_text := t3,
                                         valid_doi_in_extracted_text := v\<rparr>,
                                append_test_result
                                  (append_test_result
                                     (append_test_result (cls x)
                                        ''test_length_of_extracted_text'' (TBool ?t2))
                                     ''test_title_match_in_extracted_text'' (TBool t3))
                                  ''test_valid_doi_in_extracted_text'' (TBool v))))
            (\<lambda>(r, c).
               bind (find_cc_statement_in_extracted_text E K s)
                 (\<lambda>(cc, s).
                    Inr \<lparr>res = r\<lparr>cc_match_extracted_text := cc\<rparr>,
                         cls = append_test_result c
                                 ''find_cc_statement_in_extracted_text'' (TMatch cc),
                         self = s\<rparr>))) = Inr y"
    unfolding PdfParser_extracted_text_tests_def Let_def
    by (subst (asm) bind_Inr_iff) auto
  from rest1 obtain found s2 r c cc s3 where
    b: "find_doi_in_extracted_text E K s1 = Inr (found, s2)"
    and d: "(case doi_in_extracted_text s2 of
                  None \<Rightarrow>
                    Inr ((res x)\<lparr>long_enough := ?t2, title_match_extracted_text := t3\<rparr>,
                         append_test_result
                           (append_test_result (cls x) ''test_length_of_extracted_text''
                              (TBool ?t2))
                           ''test_title_match_in_extracted_text'' (TBool t3))
                | Some m \<Rightarrow>
                    bind (test_doi_resolves E s2 (Some (matched m)))
                      (\<lambda>v. Inr ((res x)\<lparr>long_enough := ?t2, title_match_extracted_text := t3\<rparr>
                                  \<lparr>valid_doi_in_extracted_text := v\<rparr>,
                                append_test_result
                                  (append_test_result
                                     (append_test_result (cls x)
                                        ''test_length_of_extracted_text'' (TBool ?t2))
                                     ''test_title_match_in_extracted_text'' (TBool t3))
                                  ''test_valid_doi_in_extracted_text'' (TBool v)))) = Inr (r, c)"
    and e: "find_cc_statement_in_extracted_text E K s2 = Inr (cc, s3)"
    and y: "y = \<lparr>res = r\<lparr>cc_match_extracted_text := cc\<rparr>,
                 cls = append_test_result c ''find_cc_statement_in_extracted_text'' (TMatch cc),
                 self = s3\<rparr>"
    by (auto simp: bind_Inr_iff)
  note f = doi_step [OF d]
  from a have k1: "doc s1 = doc (self x) \<and> dec_version s1 = dec_version (self x)"
    using test_title_text_parser [OF a] by (simp add: extract_text_def)
  from b have k2: "doc s2 = doc s1 \<and> dec_version s2 = dec_version s1"
    using find_doi_parser [OF b] by simp
  from e have k3: "doc s3 = doc s2 \<and> dec_version s3 = dec_version s2"
    using find_cc_loop_parser [of E s2 _ cc s3]
    by (simp add: find_cc_statement_in_extracted_text_def)
  show ?thesis
    using f k1 k2 k3 by (simp add: y)
qed

lemma parse_cermxml_parser:
  "doc (parse_cermxml s) = doc s \<and> dec_version (parse_cermxml s) = dec_version s"
  by (simp add: parse_cermxml_def split: option.splits)

lemma test_title_match_cermxml_parser:
  "doc (snd (test_title_match_cermxml E s m)) = doc s
   \<and> dec_version (snd (test_title_match_cermxml E s m)) = dec_version s"
  by (simp add: test_title_match_cermxml_def Let_def parse_cermxml_parser
      split: option.splits prod.splits)

lemma cermine_tests_frame:
  assumes "PdfParser_cermine_tests E x = Inr y"
  shows "approve_deposit (res y) = approve_deposit (res x)
         \<and> sanity_check (res y) = sanity_check (res x)
         \<and> long_enough (res y) = long_enough (res x)
         \<and> smur_prob (res y) = smur_prob (res x)
         \<and> am_prob (res y) = am_prob (res x)
         \<and> extracted_publisher_tags_in_file_metadata (res y)
             = extracted_publisher_tags_in_file_metadata (res x)
         \<and> cc_match_extracted_text (res y) = cc_match_extracted_text (res x)
         \<and> possible_versions (cls y) = possible_versions (cls x)
         \<and> doc (self y) = doc (self x) \<and> dec_version (self y) = dec_version (self x)"
proof -
  from assms obtain r c where
    rc: "(if truthy_str (cerm_doi (parse_cermxml (self x)))
          then bind (test_doi_resolves E (parse_cermxml (self x))
                       (cerm_doi (parse_cermxml (self x))))
                 (\<lambda>v. Inr ((res x)\<lparr>valid_doi_in_cermine_xml := v\<rparr>,
                           append_test_result (cls x) ''test_valid_doi_in_cermine_xml''
                             (TBool v)))
          else Inr (res x, cls x)) = Inr (r, c)"
    and y: "y = \<lparr>res = r\<lparr>title_match_cermine_xml :=
                               fst (test_title_match_cermxml E (parse_cermxml (self x)) (9 / 10))\<rparr>,
                 cls = append_test_result c ''test_title_match_cermxml''
                         (TBool (fst (test_title_match_cermxml E (parse_cermxml (self x))
                                        (9 / 10)))),
                 self = snd (test_title_match_cermxml E (parse_cermxml (self x)) (9 / 10))\<rparr>"
    unfolding PdfParser_cermine_tests_def Let_def bind_Inr_iff by auto
  from rc have "approve_deposit r = approve_deposit (res x)
      \<and> sanity_check r = sanity_check (res x) \<and> long_enough r = long_enough (res x)
      \<and> smur_prob r = smur_prob (res x) \<and> am_prob r = am_prob (res x)
      \<and> extracted_publisher_tags_in_file_metadata r
          = extracted_publisher_tags_in_file_metadata (res x)
      \<and> cc_match_extracted_text r = cc_match_extracted_text (res x)
      \<and> possible_versions c = possible_versions (cls x)"
    by (cases "truthy_str (cerm_doi (parse_cermxml (self x)))") (auto simp: bind_Inr_iff)
  then show ?thesis
    using test_title_match_cermxml_parser [of E "parse_cermxml (self x)" "9 / 10"]
      parse_cermxml_parser [of "self x"]
    by (simp add: y)
qed

lemma logo_tests_frame:
  assumes "PdfParser_logo_tests x = Inr y"
  shows "approve_deposit (res y) = approve_deposit (res x)
         \<and> sanity_check (res y) = sanity_check (res x)
         \<and> long_enough (res y) = long_enough (res x)
         \<and> smur_prob (res y) = smur_prob (res x)
         \<and> am_prob (res y) = am_prob (res x)
         \<and> extracted_publisher_tags_in_file_metadata (res y)
             = extracted_publisher_tags_in_file_metadata (res x)
         \<and> cc_match_extracted_text (res y) = cc_match_extracted_text (res x)
         \<and> set (possible_versions (cls y)) \<subseteq> set (possible_versions (cls x))
         \<and> self y = self x"
  using assms unfolding PdfParser_logo_tests_def Let_def bind_Inr_iff
  by (elim exE conjE) (clarsimp simp: exclude_unsuggested_subset)

lemma DocxParser_tests_res:
  assumes "DocxParser_tests E K c s = Inr x"
  shows "approve_deposit (res x) = False \<and> sanity_check (res x) = None
         \<and> long_enough (res x)
             = test_length_of_extracted_text (extract_text s)
                 (3 * NUMBER_OF_CHARACTERS_IN_ONE_PAGE)"
  using assms
  by (auto simp: DocxParser_tests_def bind_Inr_iff Let_def ArtemisResult_def
        test_length_of_extracted_text_def extract_text_def extract_file_metadata_def
      split: prod.splits)

lemma DocxParser_decision_res:
  assumes "DocxParser_decision x = Inr y"
    and "approve_deposit (res x) = False" and "sanity_check (res x) = None"
  shows "(approve_deposit (res y) \<longrightarrow> sanity_check (res y) = Some True)
         \<and> sanity_check (res y) \<noteq> Some False
         \<and> (\<not> sanity (res x) \<longrightarrow> \<not> approve_deposit (res y) \<and> sanity_check (res y) = None)
         \<and> long_enough (res y) = long_enough (res x)"
  using assms
  by (auto simp: DocxParser_decision_def Let_def split: if_splits option.splits)

lemma PdfParser_decision_res:
  assumes "PdfParser_decision K x = Inr y"
    and "approve_deposit (res x) = False" and "sanity_check (res x) = None"
  shows "(approve_deposit (res y) \<longrightarrow> sanity_check (res y) = Some True)
         \<and> sanity_check (res y) \<noteq> Some False
         \<and> (\<not> sanity (res x) \<longrightarrow> \<not> approve_deposit (res y) \<and> sanity_check (res y) = None)
         \<and> long_enough (res y) = long_enough (res x)
         \<and> smur_prob (res y) = smur_prob (res x)
         \<and> am_prob (res y) = am_prob (res x)"
  using assms unfolding PdfParser_decision_def Let_def
  by (simp split: if_splits option.splits, auto)

lemma PdfParser_decision_publisher:
  assumes "PdfParser_decision K x = Inr y"
    and "sanity_check (res x) = None" and "sanity_check (res y) = Some True"
    and "extracted_publisher_tags_in_file_metadata (res x) = Some tags" and "tags \<noteq> []"
    and "cc_match_extracted_text (res x) = None"
    and "approve_deposit (res x) = False"
  shows "approve_deposit (res y) = False
         \<and> reason (res y) = Some ''Publisher-generated version; no evidence of CC licence''
         \<and> possible_versions (cls y)
              = exclude_versions (possible_versions (cls x)) [SMUR K, AM K]"
  using assms unfolding PdfParser_decision_def Let_def publisher_generated_def
  by (simp split: if_splits option.splits add: exclude_def del: exclude_versions.simps, auto)

lemma test_length_empty:
  "file_text (doc s) = [] \<Longrightarrow> test_length_of_extracted_text (extract_text s) n = None"
  by (simp add: test_length_of_extracted_text_def extract_text_def)

lemma sanity_needs_length: "long_enough r = None \<Longrightarrow> \<not> sanity r"
  by (simp add: sanity_def truthy_bool_def)

lemma DocxParser_evaluate_res:
  assumes "DocxParser_evaluate E K c s = Inr y"
  shows "(approve_deposit (res y) \<longrightarrow> sanity_check (res y) = Some True)
         \<and> sanity_check (res y) \<noteq> Some False
         \<and> (file_text (doc s) = [] \<longrightarrow>
              long_enough (res y) = None \<and> sanity_check (res y) = None
              \<and> \<not> approve_deposit (res y))"
proof -
  from assms obtain x where t: "DocxParser_tests E K c s = Inr x"
    and d: "DocxParser_decision x = Inr y"
    by (auto simp: DocxParser_evaluate_def bind_Inr_iff)
  note a = DocxParser_tests_res [OF t]
  from a have b: "approve_deposit (res x) = False" "sanity_check (res x) = None"
    by simp_all
  note e = DocxParser_decision_res [OF d b]
  have "file_text (doc s) = [] \<Longrightarrow> long_enough (res x) = None"
    using a by (simp add: test_length_empty)
  with e show ?thesis
    using sanity_needs_length [of "res x"] by auto
qed

lemma PdfParser_evaluate_stages:
  assumes "PdfParser_evaluate E K c s = Inr y"
  obtains x1 x2 x3 x4 where
    "PdfParser_file_metadata_tests E K
       \<lparr>res = (ArtemisResult (file_name (doc s)))
                \<lparr>smur_prob := 2500, am_prob := 2500, p_prob := 2500,
                 vor_oa_prob := 1250, vor_pw_prob := 1250\<rparr>,
        cls = c, self = s\<rparr> = Inr x1"
    and "PdfParser_extracted_text_tests E K x1 = Inr x2"
    and "PdfParser_cermine_tests E x2 = Inr x3"
    and "PdfParser_logo_tests x3 = Inr x4"
    and "PdfParser_decision K x4 = Inr y"
  using assms unfolding PdfParser_evaluate_def Let_def bind_Inr_iff by blast

lemma PdfParser_evaluate_res:
  assumes "PdfParser_evaluate E K c s = Inr y"
  shows "(approve_deposit (res y) \<longrightarrow> sanity_check (res y) = Some True)
         \<and> sanity_check (res y) \<noteq> Some False
         \<and> (file_text (doc s) = [] \<longrightarrow>
              long_enough (res y) = None \<and> sanity_check (res y) = None
              \<and> \<not> approve_deposit (res y))"
proof -
  from assms obtain x1 x2 x3 x4 where
    s1: "PdfParser_file_metadata_tests E K
       \<lparr>res = (ArtemisResult (file_name (doc s)))
                \<lparr>smur_prob := 2500, am_prob := 2500, p_prob := 2500,
                 vor_oa_prob := 1250, vor_pw_prob := 1250\<rparr>,
        cls = c, self = s\<rparr> = Inr x1"
    and s2: "PdfParser_extracted_text_tests E K x1 = Inr x2"
    and s3: "PdfParser_cermine_tests E x2 = Inr x3"
    and s4: "PdfParser_logo_tests x3 = Inr x4"
    and s5: "PdfParser_decision K x4 = Inr y"
    by (rule PdfParser_evaluate_stages)
  note f1 = file_metadata_tests_frame [OF s1]
  note f2 = extracted_text_tests_frame [OF s2]
  note f3 = cermine_tests_frame [OF s3]
  note f4 = logo_tests_frame [OF s4]
  have b: "approve_deposit (res x4) = False" "sanity_check (res x4) = None"
    using f1 f2 f3 f4 by (simp_all add: ArtemisResult_def)
  note e = PdfParser_decision_res [OF s5 b]
  have "doc (self x1) = doc s"
    using f1 by simp
  then have "file_text (doc s) = [] \<Longrightarrow> long_enough (res x4) = None"
    using f2 f3 f4 test_length_empty [of "self x1"] by simp
  with e show ?thesis
    using sanity_needs_length [of "res x4"] by auto
qed



lemma DocxParser_decision_fields:
  assumes "DocxParser_decision x = Inr y"
  shows "long_enough (res y) = long_enough (res x)
         \<and> title_match_file_metadata (res y) = title_match_file_metadata (res x)
         \<and> title_match_extracted_text (res y) = title_match_extracted_text (res x)"
  using assms unfolding DocxParser_decision_def Let_def
  by (simp split: if_splits option.splits, auto)

lemma PdfParser_decision_fields:
  assumes "PdfParser_decision K x = Inr y"
  shows "long_enough (res y) = long_enough (res x)
         \<and> title_match_file_metadata (res y) = title_match_file_metadata (res x)
         \<and> title_match_extracted_text (res y) = title_match_extracted_text (res x)"
  using assms unfolding PdfParser_decision_def Let_def
  by (simp split: if_splits option.splits, auto)

lemma DocxParser_evaluate_sanity:
  assumes "DocxParser_evaluate E K c s = Inr y" and "approve_deposit (res y)"
  shows "sanity (res y)"
proof -
  from assms(1) obtain x where t: "DocxParser_tests E K c s = Inr x"
    and d: "DocxParser_decision x = Inr y"
    by (auto simp: DocxParser_evaluate_def bind_Inr_iff)
  from DocxParser_tests_res [OF t]
  have b: "approve_deposit (res x) = False" "sanity_check (res x) = None"
    by simp_all
  from DocxParser_decision_res [OF d b] assms(2) have "sanity (res x)"
    by blast
  with DocxParser_decision_fields [OF d] show ?thesis
    by (simp add: sanity_def)
qed

lemma PdfParser_evaluate_sanity:
  assumes "PdfParser_evaluate E K c s = Inr y" and "approve_deposit (res y)"
  shows "sanity (res y)"
proof -
  from assms(1) obtain x1 x2 x3 x4 where
    s1: "PdfParser_file_metadata_tests E K
       \<lparr>res = (ArtemisResult (file_name (doc s)))
                \<lparr>smur_prob := 2500, am_prob := 2500, p_prob := 2500,
                 vor_oa_prob := 1250, vor_pw_prob := 1250\<rparr>,
        cls = c, self = s\<rparr> = Inr x1"
    and s2: "PdfParser_extracted_text_tests E K x1 = Inr x2"
    and s3: "PdfParser_cermine_tests E x2 = Inr x3"
    and s4: "PdfParser_logo_tests x3 = Inr x4"
    and s5: "PdfParser_decision K x4 = Inr y"
    by (rule PdfParser_evaluate_stages)
  have b: "approve_deposit (res x4) = False" "sanity_check (res x4) = None"
    using file_metadata_tests_frame [OF s1] extracted_text_tests_frame [OF s2]
      cermine_tests_frame [OF s3] logo_tests_frame [OF s4]
    by (simp_all add: ArtemisResult_def)
  from PdfParser_decision_res [OF s5 b] assms(2) have "sanity (res x4)"
    by blast
  with PdfParser_decision_fields [OF s5] show ?thesis
    by (simp add: sanity_def)
qed

lemma DocxParser_parse_Inr:
  "DocxParser_parse E K c s = Inr (resp, c') \<longleftrightarrow>
     (\<exists>y. DocxParser_evaluate E K c s = Inr y \<and> resp = json_response (res y) (cls y)
          \<and> c' = cls y)"
  by (auto simp: DocxParser_parse_def bind_Inr_iff)

lemma PdfParser_parse_Inr:
  "PdfParser_parse E K c s = Inr (resp, c') \<longleftrightarrow>
     (\<exists>y. PdfParser_evaluate E K c s = Inr y \<and> resp = json_response (res y) (cls y)
          \<and> c' = cls y)"
  by (auto simp: PdfParser_parse_def bind_Inr_iff)

lemma json_response_fields:
  "response_approve_deposit (json_response r c) = approve_deposit r
   \<and> check_results (json_response r c) = [(''sanity_check'', sanity_check r)]
   \<and> response_reason (json_response r c) = reason r
   \<and> response_test_results (json_response r c) = test_results c"
  by (simp add: json_response_def)


lemmas docx_eval =
  DocxParser_parse_def DocxParser_evaluate_def DocxParser_tests_def DocxParser_decision_def
  bind_def Let_def new_parser_def quiet_services_def literal_services_def
  example_constants_def class_body_def ArtemisResult_def exclude_def
  extract_file_metadata_def extract_text_def test_title_match_in_file_metadata_def
  test_length_of_extracted_text_def test_title_match_in_extracted_text_def
  find_match_in_extracted_text_def search_pattern_def truthy_str_def truthy_bool_def
  append_test_result_def sanity_def json_response_def lower_def lower_char_def long_text_def
  NUMBER_OF_CHARACTERS_IN_ONE_PAGE_def failure_reason_def format_opt_def

lemmas pdf_eval =
  PdfParser_parse_def PdfParser_evaluate_def PdfParser_file_metadata_tests_def
  PdfParser_extracted_text_tests_def PdfParser_cermine_tests_def PdfParser_logo_tests_def
  PdfParser_decision_def bind_def Let_def new_parser_def quiet_services_def
  literal_services_def example_constants_def class_body_def ArtemisResult_def exclude_def
  extract_file_metadata_def extract_text_def test_title_match_in_file_metadata_def
  test_length_of_extracted_text_def test_title_match_in_extracted_text_def
  find_match_in_extracted_text_def search_pattern_def find_doi_in_extracted_text_def
  find_cc_statement_in_extracted_text_def cc_queries_def test_doi_resolves_def
  extract_publisher_tags_from_file_metadata_def PUBLISHER_PDF_METADATA_TAGS_def
  parse_cermxml_def test_title_match_cermxml_def test_file_has_image_on_first_page_def
  detect_publisher_logos_def author_versions_def publisher_generated_def
  truthy_str_def truthy_bool_def append_test_result_def sanity_def json_response_def
  lower_def lower_char_def long_text_def NUMBER_OF_CHARACTERS_IN_ONE_PAGE_def
  failure_reason_def format_opt_def

subsection \<open>Approval and the sanity check\<close>

text \<open>
  C1: \<^verbatim>\<open>approve_deposit\<close> is \<^verbatim>\<open>False\<close> in a new \<^verbatim>\<open>ArtemisResult\<close>; in the final state of
  either workflow it is \<^verbatim>\<open>True\<close> only if \<^verbatim>\<open>sanity_check\<close> is \<^verbatim>\<open>True\<close> and the condition
  of the sanity branch holds, and the same is true of the response that \<^verbatim>\<open>parse\<close>
  returns.
\<close>

theorem approve_deposit_requires_sanity_check:
  "approve_deposit (ArtemisResult name) = False
   \<and> (DocxParser_evaluate E K c s = Inr y \<longrightarrow> approve_deposit (res y) \<longrightarrow>
        sanity_check (res y) = Some True \<and> sanity (res y))
   \<and> (PdfParser_evaluate E K c s = Inr y \<longrightarrow> approve_deposit (res y) \<longrightarrow>
        sanity_check (res y) = Some True \<and> sanity (res y))
   \<and> (DocxParser_parse E K c s = Inr (resp, c') \<longrightarrow> response_approve_deposit resp \<longrightarrow>
        check_results resp = [(''sanity_check'', Some True)])
   \<and> (PdfParser_parse E K c s = Inr (resp, c') \<longrightarrow> response_approve_deposit resp \<longrightarrow>
        check_results resp = [(''sanity_check'', Some True)])"
proof (intro conjI impI)
  show "approve_deposit (ArtemisResult name) = False"
    by (simp add: ArtemisResult_def)
next
  assume "DocxParser_evaluate E K c s = Inr y" and "approve_deposit (res y)"
  then show "sanity_check (res y) = Some True"
    using DocxParser_evaluate_res [of E K c s y] by simp
next
  assume "DocxParser_evaluate E K c s = Inr y" and "approve_deposit (res y)"
  then show "sanity (res y)"
    by (rule DocxParser_evaluate_sanity)
next
  assume "PdfParser_evaluate E K c s = Inr y" and "approve_deposit (res y)"
  then show "sanity_check (res y) = Some True"
    using PdfParser_evaluate_res [of E K c s y] by simp
next
  assume "PdfParser_evaluate E K c s = Inr y" and "approve_deposit (res y)"
  then show "sanity (res y)"
    by (rule PdfParser_evaluate_sanity)
next
  assume p: "DocxParser_parse E K c s = Inr (resp, c')" and a: "response_approve_deposit resp"
  from p obtain z where z: "DocxParser_evaluate E K c s = Inr z"
    and r: "resp = json_response (res z) (cls z)"
    unfolding DocxParser_parse_Inr by blast
  from a r have "approve_deposit (res z)"
    by (simp add: json_response_fields)
  with z have "sanity_check (res z) = Some True"
    using DocxParser_evaluate_res [of E K c s z] by simp
  with r show "check_results resp = [(''sanity_check'', Some True)]"
    by (simp add: json_response_fields)
next
  assume p: "PdfParser_parse E K c s = Inr (resp, c')" and a: "response_approve_deposit resp"
  from p obtain z where z: "PdfParser_evaluate E K c s = Inr z"
    and r: "resp = json_response (res z) (cls z)"
    unfolding PdfParser_parse_Inr by blast
  from a r have "approve_deposit (res z)"
    by (simp add: json_response_fields)
  with z have "sanity_check (res z) = Some True"
    using PdfParser_evaluate_res [of E K c s z] by simp
  with r show "check_results resp = [(''sanity_check'', Some True)]"
    by (simp add: json_response_fields)
qed

theorem approve_deposit_requires_sanity_check_witness:
  "\<exists>resp c'.
     DocxParser_parse quiet_services example_constants (class_body example_constants)
       example_docx = Inr (resp, c')
     \<and> response_approve_deposit resp
     \<and> check_results resp = [(''sanity_check'', Some True)]"
proof -
  have "\<exists>resp c'.
     DocxParser_parse quiet_services example_constants (class_body example_constants)
       example_docx = Inr (resp, c')
     \<and> response_approve_deposit resp"
    by (simp add: docx_eval example_docx_def)
  then obtain resp c' where
    "DocxParser_parse quiet_services example_constants (class_body example_constants)
       example_docx = Inr (resp, c')"
    and "response_approve_deposit resp"
    by blast
  then show ?thesis
    using approve_deposit_requires_sanity_check
      [of "''paper.docx''" quiet_services example_constants "class_body example_constants"
        example_docx _ resp c']
    by blast
qed


text \<open>
  C10: \<^verbatim>\<open>sanity_check\<close> is assigned only the value \<^verbatim>\<open>True\<close>: in the final state and in the
  response of either workflow it is \<^verbatim>\<open>True\<close> or \<^verbatim>\<open>None\<close>, never \<^verbatim>\<open>False\<close>.
\<close>

theorem sanity_check_never_False:
  "(DocxParser_evaluate E K c s = Inr y \<longrightarrow>
      sanity_check (res y) = Some True \<or> sanity_check (res y) = None)
   \<and> (PdfParser_evaluate E K c s = Inr y \<longrightarrow>
      sanity_check (res y) = Some True \<or> sanity_check (res y) = None)
   \<and> (DocxParser_parse E K c s = Inr (resp, c') \<longrightarrow>
      check_results resp \<noteq> [(''sanity_check'', Some False)])
   \<and> (PdfParser_parse E K c s = Inr (resp, c') \<longrightarrow>
      check_results resp \<noteq> [(''sanity_check'', Some False)])"
proof (intro conjI impI)
  have g: "v \<noteq> Some False \<Longrightarrow> v = Some True \<or> v = None" for v :: "bool option"
    by (cases v) auto
  {
    assume "DocxParser_evaluate E K c s = Inr y"
    then have "sanity_check (res y) \<noteq> Some False"
      using DocxParser_evaluate_res [of E K c s y] by simp
    then show "sanity_check (res y) = Some True \<or> sanity_check (res y) = None"
      by (rule g)
  }
  {
    assume "PdfParser_evaluate E K c s = Inr y"
    then have "sanity_check (res y) \<noteq> Some False"
      using PdfParser_evaluate_res [of E K c s y] by simp
    then show "sanity_check (res y) = Some True \<or> sanity_check (res y) = None"
      by (rule g)
  }
  {
    assume "DocxParser_parse E K c s = Inr (resp, c')"
    then obtain z where z: "DocxParser_evaluate E K c s = Inr z"
      and r: "resp = json_response (res z) (cls z)"
      unfolding DocxParser_parse_Inr by blast
    from z have "sanity_check (res z) \<noteq> Some False"
      using DocxParser_evaluate_res [of E K c s z] by simp
    with r show "check_results resp \<noteq> [(''sanity_check'', Some False)]"
      by (simp add: json_response_fields)
  }
  {
    assume "PdfParser_parse E K c s = Inr (resp, c')"
    then obtain z where z: "PdfParser_evaluate E K c s = Inr z"
      and r: "resp = json_response (res z) (cls z)"
      unfolding PdfParser_parse_Inr by blast
    from z have "sanity_check (res z) \<noteq> Some False"
      using PdfParser_evaluate_res [of E K c s z] by simp
    with r show "check_results resp \<noteq> [(''sanity_check'', Some False)]"
      by (simp add: json_response_fields)
  }
qed


lemma example_pdf_run:
  "\<exists>y. PdfParser_evaluate quiet_services example_constants (class_body example_constants)
          example_pdf = Inr y
       \<and> sanity_check (res y) = Some True
       \<and> cc_match_extracted_text (res y) = None
       \<and> approve_deposit (res y) = False
       \<and> possible_versions (cls y) = [''proof'', ''version of record'']"
  by (simp add: pdf_eval example_pdf_def)

lemma publisher_tags_found:
  assumes "file_info (doc s) = Some md" and "tag \<in> set PUBLISHER_PDF_METADATA_TAGS"
    and "map_of md tag = Some v" and "v \<noteq> []"
    and "extract_publisher_tags_from_file_metadata (extract_file_metadata s) = Inr tags"
  shows "tags \<noteq> []"
proof -
  from assms(1,5) have "tags = filter (\<lambda>t. truthy_str (map_of md t)) PUBLISHER_PDF_METADATA_TAGS"
    by (simp add: extract_publisher_tags_from_file_metadata_def extract_file_metadata_def)
  with assms(2-4) have "tag \<in> set tags"
    by (simp add: truthy_str_def)
  then show ?thesis
    by auto
qed

lemma PdfParser_decision_keeps:
  assumes "PdfParser_decision K x = Inr y"
  shows "cc_match_extracted_text (res y) = cc_match_extracted_text (res x)
         \<and> set (possible_versions (cls y)) \<subseteq> set (possible_versions (cls x))"
  using assms exclude_subset [of "cls x" "[SMUR K, AM K]"]
  unfolding PdfParser_decision_def Let_def
  by (simp split: if_splits option.splits, auto)

theorem sanity_check_never_False_witness:
  "\<exists>resp c'.
     PdfParser_parse quiet_services example_constants (class_body example_constants)
       example_pdf = Inr (resp, c')
     \<and> check_results resp = [(''sanity_check'', Some True)]
     \<and> check_results resp \<noteq> [(''sanity_check'', Some False)]"
proof -
  from example_pdf_run obtain y where
    run: "PdfParser_evaluate quiet_services example_constants (class_body example_constants)
          example_pdf = Inr y"
    and sane: "sanity_check (res y) = Some True"
    by blast
  from run have p: "PdfParser_parse quiet_services example_constants
      (class_body example_constants) example_pdf = Inr (json_response (res y) (cls y), cls y)"
    by (simp add: PdfParser_parse_def bind_def)
  have "check_results (json_response (res y) (cls y)) = [(''sanity_check'', Some True)]"
    using sane by (simp add: json_response_fields)
  with p sanity_check_never_False
      [of quiet_services example_constants "class_body example_constants" example_pdf y
        "json_response (res y) (cls y)" "cls y"]
  show ?thesis
    by blast
qed

subsection \<open>Publisher-generated files without a licence\<close>

text \<open>
  C9: a PDF evaluation that passes the sanity check, whose metadata holds one of the
  publisher tags with a non-empty value, in whose text no Creative Commons statement was
  found and whose declared version is "accepted manuscript" ends with
  \<^verbatim>\<open>approve_deposit = False\<close> and the reason
  "Publisher-generated version; no evidence of CC licence"; the versions \<^verbatim>\<open>SMUR\<close> and
  \<^verbatim>\<open>AM\<close> are no longer candidates and their weights are zero. The candidate list at the
  start is one without repetition.
\<close>

theorem publisher_generated_without_licence:
  assumes run: "PdfParser_evaluate E K c s = Inr y"
    and sane: "sanity_check (res y) = Some True"
    and md: "file_info (doc s) = Some md"
    and tag: "tag \<in> set PUBLISHER_PDF_METADATA_TAGS" "map_of md tag = Some v" "v \<noteq> []"
    and cc: "cc_match_extracted_text (res y) = None"
    and version: "dec_version s = Some ''accepted manuscript''"
    and candidates: "distinct (possible_versions c)"
  shows "approve_deposit (res y) = False
         \<and> reason (res y) = Some ''Publisher-generated version; no evidence of CC licence''
         \<and> SMUR K \<notin> set (possible_versions (cls y))
         \<and> AM K \<notin> set (possible_versions (cls y))
         \<and> smur_prob (res y) = 0 \<and> am_prob (res y) = 0"
proof -
  let ?x0 = "\<lparr>res = (ArtemisResult (file_name (doc s)))
                \<lparr>smur_prob := 2500, am_prob := 2500, p_prob := 2500,
                 vor_oa_prob := 1250, vor_pw_prob := 1250\<rparr>,
        cls = c, self = s\<rparr>"
  from run obtain x1 x2 x3 x4 where
    s1: "PdfParser_file_metadata_tests E K ?x0 = Inr x1"
    and s2: "PdfParser_extracted_text_tests E K x1 = Inr x2"
    and s3: "PdfParser_cermine_tests E x2 = Inr x3"
    and s4: "PdfParser_logo_tests x3 = Inr x4"
    and s5: "PdfParser_decision K x4 = Inr y"
    by (rule PdfParser_evaluate_stages)
  note f1 = file_metadata_tests_frame [OF s1]
  note f2 = extracted_text_tests_frame [OF s2]
  note f3 = cermine_tests_frame [OF s3]
  note f4 = logo_tests_frame [OF s4]
  from file_metadata_tests_effect [OF s1] obtain tags where
    t0: "extract_publisher_tags_from_file_metadata (extract_file_metadata s) = Inr tags"
    and t1: "extracted_publisher_tags_in_file_metadata (res x1) = Some tags"
    and p1: "smur_prob (res x1) = (if tags \<noteq> [] then 0 else 2500)"
      "am_prob (res x1) = (if tags \<noteq> [] then 0 else 2500)"
    and v1: "possible_versions (cls x1)
               = (if tags \<noteq> []
                  then exclude_versions
                         (exclude_versions (possible_versions c) [''submitted version'', SMUR K])
                         [''accepted version'', AM K]
                  else possible_versions c)"
    by (auto simp: ArtemisResult_def)
  have ne: "tags \<noteq> []"
    using md tag t0 by (rule publisher_tags_found)
  have d1: "distinct (exclude_versions (possible_versions c) [''submitted version'', SMUR K])"
    using candidates by (rule exclude_versions_distinct)
  have "set (possible_versions (cls x1))
          = set (possible_versions c) - set [''submitted version'', SMUR K]
              - set [''accepted version'', AM K]"
    using ne v1 exclude_versions_set [OF d1, of "[''accepted version'', AM K]"]
      exclude_versions_set [OF candidates, of "[''submitted version'', SMUR K]"]
    by (simp del: exclude_versions.simps)
  then have out1: "SMUR K \<notin> set (possible_versions (cls x1))"
      "AM K \<notin> set (possible_versions (cls x1))"
    by auto
  have sub: "set (possible_versions (cls y)) \<subseteq> set (possible_versions (cls x1))"
    using f2 f3 f4 PdfParser_decision_keeps [OF s5] by auto
  have b: "approve_deposit (res x4) = False" "sanity_check (res x4) = None"
    using f1 f2 f3 f4 by (simp_all add: ArtemisResult_def)
  have t4: "extracted_publisher_tags_in_file_metadata (res x4) = Some tags"
    using t1 f2 f3 f4 by simp
  have c4: "cc_match_extracted_text (res x4) = None"
    using cc PdfParser_decision_keeps [OF s5] by simp
  note d = PdfParser_decision_publisher [OF s5 b(2) sane t4 ne c4 b(1)]
  have p: "smur_prob (res y) = 0 \<and> am_prob (res y) = 0"
    using PdfParser_decision_res [OF s5 b] f2 f3 f4 p1 ne by simp
  from d sub out1 p show ?thesis
    by auto
qed

theorem publisher_generated_without_licence_witness:
  "\<exists>y. PdfParser_evaluate quiet_services example_constants (class_body example_constants)
          example_pdf = Inr y
       \<and> sanity_check (res y) = Some True
       \<and> approve_deposit (res y) = False
       \<and> reason (res y) = Some ''Publisher-generated version; no evidence of CC licence''
       \<and> smur_prob (res y) = 0 \<and> am_prob (res y) = 0
       \<and> possible_versions (cls y) = [''proof'', ''version of record'']"
proof -
  from example_pdf_run obtain y where
    run: "PdfParser_evaluate quiet_services example_constants (class_body example_constants)
          example_pdf = Inr y"
    and sane: "sanity_check (res y) = Some True"
    and cc: "cc_match_extracted_text (res y) = None"
    and pv: "possible_versions (cls y) = [''proof'', ''version of record'']"
    by blast
  have md: "file_info (doc example_pdf)
            = Some [(''/Title'', ''Deep Learning for Cats''), (''/doi'', ''10.1000/182'')]"
    by (simp add: example_pdf_def new_parser_def)
  have tag: "''/doi'' \<in> set PUBLISHER_PDF_METADATA_TAGS"
    by (simp add: PUBLISHER_PDF_METADATA_TAGS_def)
  have v: "map_of [(''/Title'', ''Deep Learning for Cats''), (''/doi'', ''10.1000/182'')] ''/doi''
           = Some ''10.1000/182''"
    by simp
  have ne: "''10.1000/182'' \<noteq> []"
    by simp
  have ver: "dec_version example_pdf = Some ''accepted manuscript''"
    by (simp add: example_pdf_def new_parser_def)
  have dist: "distinct (possible_versions (class_body example_constants))"
    by (simp add: class_body_def example_constants_def)
  from publisher_generated_without_licence [OF run sane md tag v ne cc ver dist] run sane pv
  show ?thesis
    by blast
qed


subsection \<open>An empty extracted text\<close>

text \<open>
  C3, as the code has it: when the extracted text is empty, \<^verbatim>\<open>test_length_of_extracted_text\<close>
  returns \<^verbatim>\<open>None\<close> (the guard \<^verbatim>\<open>if self.extracted_text\<close> takes the empty string for a
  missing text), and both workflows end with \<^verbatim>\<open>long_enough = None\<close>,
  \<^verbatim>\<open>sanity_check = None\<close> and \<^verbatim>\<open>approve_deposit = False\<close>, whatever the other tests
  found.
\<close>

theorem empty_text_is_indeterminate:
  "file_text (doc s) = [] \<longrightarrow>
     test_length_of_extracted_text (extract_text s) min_length = None
     \<and> (DocxParser_evaluate E K c s = Inr y \<longrightarrow>
          long_enough (res y) = None \<and> sanity_check (res y) = None
          \<and> approve_deposit (res y) = False)
     \<and> (PdfParser_evaluate E K c s = Inr y \<longrightarrow>
          long_enough (res y) = None \<and> sanity_check (res y) = None
          \<and> approve_deposit (res y) = False)"
proof (intro impI conjI)
  assume e: "file_text (doc s) = []"
  then show "test_length_of_extracted_text (extract_text s) min_length = None"
    by (rule test_length_empty)
  {
    assume "DocxParser_evaluate E K c s = Inr y"
    from DocxParser_evaluate_res [OF this] e
    show "long_enough (res y) = None" "sanity_check (res y) = None"
      "approve_deposit (res y) = False"
      by simp_all
  }
  {
    assume "PdfParser_evaluate E K c s = Inr y"
    from PdfParser_evaluate_res [OF this] e
    show "long_enough (res y) = None" "sanity_check (res y) = None"
      "approve_deposit (res y) = False"
      by simp_all
  }
qed

lemma empty_docx_run:
  "DocxParser_evaluate quiet_services example_constants (class_body example_constants)
     empty_docx
   = Inr \<lparr>res = \<lparr>input_filename = ''empty.docx'',
                 smur_prob = 5000, am_prob = 5000, p_prob = 0, vor_oa_prob = 0,
                 vor_pw_prob = 0, sanity_check = None, approve_deposit = False,
                 reason = Some ''File empty.docx is quite short for a journal article. Please check.'',
                 long_enough = None, title_match_file_metadata = Some True,
                 title_match_extracted_text = Some False,
                 extracted_publisher_tags_in_file_metadata = None,
                 valid_doi_in_extracted_text = None, cc_match_extracted_text = None,
                 valid_doi_in_cermine_xml = None, title_match_cermine_xml = None,
                 image_on_first_page = None, detected_logos = None\<rparr>,
           cls = \<lparr>possible_versions =
                    [''submitted manuscript under review'', ''accepted manuscript''],
                  test_results =
                    [(''test_title_match_in_file_metadata'', TBool (Some True)),
                     (''test_length_of_extracted_text'', TBool None),
                     (''test_title_match_in_extracted_text'', TBool (Some False))]\<rparr>,
           self = (extract_text (extract_file_metadata empty_docx))\<rparr>"
  by (simp add: docx_eval empty_docx_def)

theorem empty_text_length_test_is_not_False:
  "test_length_of_extracted_text (extract_text empty_docx)
     (3 * NUMBER_OF_CHARACTERS_IN_ONE_PAGE) = None
   \<and> verdict (DocxParser_evaluate quiet_services example_constants
        (class_body example_constants) empty_docx) = Inr (None, None, False)"
  by (simp add: empty_docx_run verdict_def bind_def)
     (simp add: test_length_of_extracted_text_def extract_text_def empty_docx_def new_parser_def)

theorem empty_text_is_indeterminate_witness:
  "file_text (doc empty_docx) = []
   \<and> verdict (DocxParser_evaluate quiet_services example_constants
        (class_body example_constants) empty_docx) = Inr (None, None, False)"
  using empty_text_is_indeterminate
    [of empty_docx "3 * NUMBER_OF_CHARACTERS_IN_ONE_PAGE" quiet_services example_constants
      "class_body example_constants"] empty_docx_run
  by (simp add: verdict_def bind_def empty_docx_def new_parser_def)


subsection \<open>A DOI resolver that cannot be reached\<close>

lemma bind_Inl [simp]: "bind (Inl e) f = Inl e"
  by (simp add: bind_def)

lemma bind_Inr [simp]: "bind (Inr x) f = f x"
  by (simp add: bind_def)

lemma PdfParser_evaluate_start:
  "PdfParser_evaluate E K c s =
     bind (PdfParser_file_metadata_tests E K (PdfParser_start c s))
       (\<lambda>x. bind (PdfParser_extracted_text_tests E K x)
          (\<lambda>x. bind (PdfParser_cermine_tests E x)
             (\<lambda>x. bind (PdfParser_logo_tests x) (PdfParser_decision K))))"
  by (simp add: PdfParser_evaluate_def PdfParser_start_def Let_def)

lemma find_doi_sets:
  assumes "find_doi_in_extracted_text E K s1 = Inr (found, s2)"
  shows "doi_in_extracted_text s2 = found"
  using assms by (auto simp: find_doi_in_extracted_text_def bind_Inr_iff)

text \<open>
  C4, as the code has it: when the request for a DOI raises, \<^verbatim>\<open>test_doi_resolves\<close> returns
  nothing, so never \<^verbatim>\<open>False\<close>: it raises the same exception. Nothing in
  \<^verbatim>\<open>PdfParser.parse\<close> catches it: once the DOI was found in the text, the region of the
  text tests raises, and with it the whole evaluation, which returns no result.
\<close>

theorem network_failure_aborts_evaluation:
  assumes net: "requests_get_ok E (DOI_BASE_URL @ doi) = Inl e" and doi: "doi \<noteq> []"
  shows "test_doi_resolves E s (Some doi) = Inl e
         \<and> (test_title_match_in_extracted_text E (extract_text (self x)) = Inr (t3, s1) \<longrightarrow>
              find_doi_in_extracted_text E K s1 = Inr (Some m, s2) \<longrightarrow> matched m = doi \<longrightarrow>
              PdfParser_extracted_text_tests E K x = Inl e)
         \<and> (PdfParser_file_metadata_tests E K (PdfParser_start c s') = Inr x \<longrightarrow>
              PdfParser_extracted_text_tests E K x = Inl e \<longrightarrow>
              PdfParser_evaluate E K c s' = Inl e \<and> PdfParser_parse E K c s' = Inl e)"
proof (intro conjI impI)
  show r: "test_doi_resolves E s (Some doi) = Inl e" for s
    using net doi by (simp add: test_doi_resolves_def truthy_str_def)
  {
    assume a: "test_title_match_in_extracted_text E (extract_text (self x)) = Inr (t3, s1)"
      and b: "find_doi_in_extracted_text E K s1 = Inr (Some m, s2)"
      and d: "matched m = doi"
    from b have "doi_in_extracted_text s2 = Some m"
      by (rule find_doi_sets)
    with a b d r [of s2] show "PdfParser_extracted_text_tests E K x = Inl e"
      by (simp add: PdfParser_extracted_text_tests_def Let_def)
  }
  {
    assume a: "PdfParser_file_metadata_tests E K (PdfParser_start c s') = Inr x"
      and b: "PdfParser_extracted_text_tests E K x = Inl e"
    then show ev: "PdfParser_evaluate E K c s' = Inl e"
      by (simp add: PdfParser_evaluate_start)
    then show "PdfParser_parse E K c s' = Inl e"
      by (simp add: PdfParser_parse_def)
  }
qed

lemma offline_metadata_stage:
  "PdfParser_file_metadata_tests offline_services example_constants
     (PdfParser_start (class_body example_constants) offline_pdf)
   = Inr \<lparr>res = (ArtemisResult ''note.pdf'')
                 \<lparr>smur_prob := 2500, am_prob := 2500, p_prob := 2500,
                  vor_oa_prob := 1250, vor_pw_prob := 1250,
                  title_match_file_metadata := None,
                  extracted_publisher_tags_in_file_metadata := Some []\<rparr>,
           cls = \<lparr>possible_versions =
                    [''submitted manuscript under review'', ''accepted manuscript'',
                     ''proof'', ''version of record''],
                  test_results =
                    [(''test_title_match_in_file_metadata'', TBool None),
                     (''extract_publisher_tags_from_file_metadata'', TTags [])]\<rparr>,
           self = extract_file_metadata offline_pdf\<rparr>"
  by (simp add: PdfParser_file_metadata_tests_def PdfParser_start_def
      test_title_match_in_file_metadata_def extract_publisher_tags_from_file_metadata_def
      extract_file_metadata_def offline_pdf_def new_parser_def class_body_def
      example_constants_def append_test_result_def PUBLISHER_PDF_METADATA_TAGS_def
      truthy_str_def Let_def ArtemisResult_def)

lemma offline_title:
  "test_title_match_in_extracted_text offline_services
     (extract_text (extract_file_metadata offline_pdf))
   = Inr (None, extract_text (extract_file_metadata offline_pdf))"
  by (simp add: test_title_match_in_extracted_text_def truthy_str_def extract_text_def
      extract_file_metadata_def offline_pdf_def new_parser_def)

lemma offline_doi:
  "find_doi_in_extracted_text offline_services example_constants
     (extract_text (extract_file_metadata offline_pdf))
   = Inr (Some \<lparr>matched = ''10.1000/182'', match_in_expected_position = True\<rparr>,
          (extract_text (extract_file_metadata offline_pdf))
            \<lparr>doi_in_extracted_text :=
               Some \<lparr>matched = ''10.1000/182'', match_in_expected_position = True\<rparr>\<rparr>)"
  by (simp add: find_doi_in_extracted_text_def find_match_in_extracted_text_def
      search_pattern_def truthy_str_def extract_text_def extract_file_metadata_def
      offline_pdf_def new_parser_def offline_services_def literal_services_def
      example_constants_def continuous_text_def Let_def)

lemma offline_resolver:
  "test_doi_resolves offline_services s (Some ''10.1000/182'') = Inl ConnectionError"
  by (simp add: test_doi_resolves_def truthy_str_def offline_services_def
      literal_services_def)

theorem network_failure_aborts_evaluation_witness:
  "test_doi_resolves offline_services offline_pdf (Some ''10.1000/182'') = Inl ConnectionError
   \<and> PdfParser_evaluate offline_services example_constants (class_body example_constants)
       offline_pdf = Inl ConnectionError"
proof -
  have net: "requests_get_ok offline_services (DOI_BASE_URL @ ''10.1000/182'')
             = Inl ConnectionError"
    by (simp add: offline_services_def literal_services_def)
  have ne: "''10.1000/182'' \<noteq> []"
    by simp
  note t = network_failure_aborts_evaluation [OF net ne, of offline_pdf _
      None "extract_text (extract_file_metadata offline_pdf)" example_constants
      "\<lparr>matched = ''10.1000/182'', match_in_expected_position = True\<rparr>" _
      "class_body example_constants" offline_pdf]
  from t offline_metadata_stage offline_title offline_doi show ?thesis
    by simp
qed

theorem network_failure_leaves_no_result:
  "PdfParser_parse offline_services example_constants (class_body example_constants)
     offline_pdf = Inl ConnectionError"
proof -
  have "PdfParser_extracted_text_tests offline_services example_constants
     \<lparr>res = (ArtemisResult ''note.pdf'')
                 \<lparr>smur_prob := 2500, am_prob := 2500, p_prob := 2500,
                  vor_oa_prob := 1250, vor_pw_prob := 1250,
                  title_match_file_metadata := None,
                  extracted_publisher_tags_in_file_metadata := Some []\<rparr>,
           cls = \<lparr>possible_versions =
                    [''submitted manuscript under review'', ''accepted manuscript'',
                     ''proof'', ''version of record''],
                  test_results =
                    [(''test_title_match_in_file_metadata'', TBool None),
                     (''extract_publisher_tags_from_file_metadata'', TTags [])]\<rparr>,
           self = extract_file_metadata offline_pdf\<rparr> = Inl ConnectionError"
    by (simp add: PdfParser_extracted_text_tests_def Let_def offline_title offline_doi
        offline_resolver)
  then show ?thesis
    by (simp add: PdfParser_parse_def PdfParser_evaluate_start offline_metadata_stage)
qed


subsection \<open>State that survives an evaluation\<close>

lemma docx_first:
  "\<exists>resp c'.
     DocxParser_parse quiet_services example_constants (class_body example_constants)
       example_docx = Inr (resp, c')
     \<and> response_approve_deposit resp = True"
  by (simp add: docx_eval example_docx_def)

lemma docx_after_pdf:
  assumes "possible_versions c = [''proof'', ''version of record'']"
  shows "\<exists>resp c'.
     DocxParser_parse quiet_services example_constants c example_docx = Inr (resp, c')
     \<and> response_approve_deposit resp = False"
  by (simp add: docx_eval example_docx_def assms)

lemma example_pdf_parse:
  "\<exists>resp c'.
     PdfParser_parse quiet_services example_constants (class_body example_constants)
       example_pdf = Inr (resp, c')
     \<and> response_approve_deposit resp = False
     \<and> possible_versions c' = [''proof'', ''version of record'']"
proof -
  from example_pdf_run obtain y where
    run: "PdfParser_evaluate quiet_services example_constants (class_body example_constants)
          example_pdf = Inr y"
    and a: "approve_deposit (res y) = False"
    and pv: "possible_versions (cls y) = [''proof'', ''version of record'']"
    by blast
  from run have "PdfParser_parse quiet_services example_constants
      (class_body example_constants) example_pdf = Inr (json_response (res y) (cls y), cls y)"
    by (simp add: PdfParser_parse_def)
  with a pv show ?thesis
    by (simp add: json_response_fields)
qed

text \<open>
  C2 does not hold of the code: the candidate list and the dictionary of test results are
  attributes of the class \<^verbatim>\<open>ArtemisResult\<close>, and each evaluation leaves them as it
  mutated them. After one DOCX evaluation the class holds two candidates and three test
  results; the same DOCX is approved when it is evaluated first, and rejected when a PDF
  with a publisher tag was evaluated before it.
\<close>

theorem verdict_depends_on_earlier_evaluation:
  "map_sum id cls
     (DocxParser_evaluate quiet_services example_constants (class_body example_constants)
        empty_docx)
     = Inr \<lparr>possible_versions =
              [''submitted manuscript under review'', ''accepted manuscript''],
            test_results =
              [(''test_title_match_in_file_metadata'', TBool (Some True)),
               (''test_length_of_extracted_text'', TBool None),
               (''test_title_match_in_extracted_text'', TBool (Some False))]\<rparr>
   \<and> map_sum id (map response_approve_deposit)
       (detect_all quiet_services example_constants (class_body example_constants)
          [Docx example_docx]) = Inr [True]
   \<and> map_sum id (map response_approve_deposit)
       (detect_all quiet_services example_constants (class_body example_constants)
          [Pdf example_pdf, Docx example_docx]) = Inr [False, False]"
proof -
  from docx_first obtain r0 c0 where
    d0: "DocxParser_parse quiet_services example_constants (class_body example_constants)
       example_docx = Inr (r0, c0)"
    and a0: "response_approve_deposit r0 = True"
    by blast
  from example_pdf_parse obtain r1 c1 where
    p: "PdfParser_parse quiet_services example_constants (class_body example_constants)
       example_pdf = Inr (r1, c1)"
    and a1: "response_approve_deposit r1 = False"
    and pv: "possible_versions c1 = [''proof'', ''version of record'']"
    by blast
  from docx_after_pdf [OF pv] obtain r2 c2 where
    d: "DocxParser_parse quiet_services example_constants c1 example_docx = Inr (r2, c2)"
    and a2: "response_approve_deposit r2 = False"
    by blast
  from d0 a0 p a1 d a2 show ?thesis
    by (simp add: empty_docx_run)
qed


subsection \<open>The fuzzy search\<close>

lemma length_lower [simp]: "length (lower s) = length s"
  by (simp add: lower_def)

lemma lower_take: "lower (take n s) = take n (lower s)"
  by (simp add: lower_def take_map)

lemma lower_Nil_iff [simp]: "lower s = [] \<longleftrightarrow> s = []"
  by (simp add: lower_def)

lemma lower_Cons: "lower (c # cs) = lower_char c # lower cs"
  by (simp add: lower_def)










lemma search_pattern_fuzzy:
  assumes "q \<noteq> []" and "ratio \<noteq> 0"
  shows "search_pattern E s (Some q) True ratio
         = Inr (Some (regex_escape E q @ ''{e<''
                      @ str_int (py_int (ratio * of_nat (length (regex_escape E q))))
                      @ ''}''))"
  using assms by (simp add: search_pattern_def truthy_str_def)

text \<open>
  C5 does not hold of the code: the number written into the pattern is computed from the
  query after \<^verbatim>\<open>regex.escape\<close>, and it is written behind \<^verbatim>\<open>e<\<close>. For the query \<^verbatim>\<open>....\<close>
  and the ratio 0.5 the pattern ends in \<^verbatim>\<open>{e<4}\<close>, while the ratio times the length of
  the query as given is 2.
\<close>

theorem error_limit_counts_escaped_characters:
  "search_pattern literal_services titled_note (Some ''....'') True (1 / 2)
     = Inr (Some ([CHR 0x5C, CHR ''.'', CHR 0x5C, CHR ''.'', CHR 0x5C, CHR ''.'',
                   CHR 0x5C, CHR ''.''] @ ''{e<4}''))
   \<and> py_int ((1 / 2) * of_nat (length ''....'')) = 2"
  by (simp add: search_pattern_def truthy_str_def literal_services_def escape_def
      regex_metachars_def white_space_def str_int_def py_int_def)





text \<open>
  C7, as the code has it: an empty query (or none) is replaced by the declared title, so
  the search is the search for the declared title, with the same result; no error is
  raised for the empty query.
\<close>

theorem empty_query_searches_declared_title:
  "find_match_in_extracted_text E s (Some []) escape_char window ratio
     = find_match_in_extracted_text E s (dec_ms_title s) escape_char window ratio
   \<and> find_match_in_extracted_text E s None escape_char window ratio
       = find_match_in_extracted_text E s (dec_ms_title s) escape_char window ratio"
  by (simp add: find_match_in_extracted_text_def search_pattern_def truthy_str_def)

theorem empty_query_searches_declared_title_witness:
  "find_match_in_extracted_text literal_services titled_note (Some []) True (0, 2600) 0
     = find_match_in_extracted_text literal_services titled_note (Some ''Deep Learning'')
         True (0, 2600) 0"
  using empty_query_searches_declared_title
    [of literal_services titled_note True "(0, 2600)" 0]
  by (simp add: titled_note_def new_parser_def)

theorem empty_query_returns_match:
  "map_sum id fst
     (find_match_in_extracted_text literal_services titled_note (Some []) True (0, 2600) 0)
   = Inr (Some \<lparr>matched = ''deep learning'', match_in_expected_position = True\<rparr>)"
  by (simp add: find_match_in_extracted_text_def search_pattern_def truthy_str_def
      literal_services_def escape_def regex_metachars_def white_space_def
      literal_search_def titled_note_def new_parser_def extract_text_def
      continuous_text_def lower_def lower_char_def)



end
